theory Spec2Isabelle
  imports Main
begin

section \<open>Values, errors and the world the client runs in\<close>

text \<open>
  The development embeds the authenticated HTTP client of the application scaffold:
  the two storage services (\<^verbatim>\<open>cache-storage.ts\<close>, \<^verbatim>\<open>secure-storage.ts\<close>), the auth
  storage, the network error handler, the axios interceptors, the HTTP client, the auth
  service and the auth provider.

  JavaScript values that are stored or sent are JSON values. The numbers of the code are
  double-precision floats; the model has the whole numbers among them, as integers. Up to
  \<open>2^53\<close> every integer is such a number and sums, differences and comparisons are
  exact; the timestamps and second counts of the code are far below that, and the
  statements about stored numbers are made in that range.
\<close>

datatype json =
    JNull
  | JBool bool
  | JNum int
  | JStr string
  | JArr "json list"
  | JObj "(string \<times> json) list"

text \<open>JavaScript truthiness, as used by \<^verbatim>\<open>if (x)\<close>, \<^verbatim>\<open>!x\<close> and \<^verbatim>\<open>a && b\<close>.\<close>

fun truthy :: "json \<Rightarrow> bool" where
  "truthy JNull = False"
| "truthy (JBool b) = b"
| "truthy (JNum n) = (n \<noteq> 0)"
| "truthy (JStr s) = (s \<noteq> [])"
| "truthy (JArr _) = True"
| "truthy (JObj _) = True"

text \<open>A \<^verbatim>\<open>string | null\<close> is truthy when it is a non-empty string.\<close>

fun truthy_str :: "string option \<Rightarrow> bool" where
  "truthy_str None = False"
| "truthy_str (Some s) = (s \<noteq> [])"

fun truthy_num :: "int option \<Rightarrow> bool" where
  "truthy_num None = False"
| "truthy_num (Some n) = (n \<noteq> 0)"

text \<open>
  \<^verbatim>\<open>JSON.stringify\<close> and \<^verbatim>\<open>JSON.parse\<close> belong to the platform, not to the repository. The
  services that call them take them as a parameter; \<open>JSON_parse\<close> returns \<open>None\<close> where
  the platform throws a \<^verbatim>\<open>SyntaxError\<close>.
\<close>

record JSON =
  JSON_stringify :: "json \<Rightarrow> string"
  JSON_parse :: "string \<Rightarrow> json option"

subsection \<open>Auth types (\<^verbatim>\<open>auth/types.ts\<close>)\<close>

record TokenInfo =
  accessToken :: string
  refreshToken :: "string option"
  expiresIn :: "int option"
  tokenType :: "string option"

datatype AuthStatus = IDLE | LOADING | AUTHENTICATED | UNAUTHENTICATED

record AuthState =
  status :: AuthStatus
  user :: json
  token :: "string option"

subsection \<open>Network types (\<^verbatim>\<open>network/types.ts\<close>)\<close>

text \<open>
  The \<^verbatim>\<open>data\<close> member of the server envelope, at the TypeScript types the callers
  declare for it: nothing, a \<^verbatim>\<open>TokenInfo\<close>, a \<^verbatim>\<open>LoginResponse\<close> or any other JSON value
  (a \<^verbatim>\<open>User\<close> is one).
\<close>

datatype payload =
    NoData
  | TokenInfoData TokenInfo
  | LoginResponseData json TokenInfo
  | JsonData json

text \<open>
  \<^verbatim>\<open>ApiResponse\<close>. A member the body does not define is \<open>None\<close> (the interceptor tests
  \<^verbatim>\<open>code !== undefined\<close>).
\<close>

record ApiResponse =
  code :: "int option"
  message :: "string option"
  data :: payload

datatype HttpMethod = GET | POST | PUT | DELETE | PATCH

record RequestConfig =
  http_method :: HttpMethod
  url :: string
  body :: "json option"
  headers :: "(string \<times> string) list"
  requestStartTime :: "int option"

record AxiosResponse =
  res_status :: nat
  res_data :: ApiResponse
  res_config :: RequestConfig

datatype NetworkErrorType =
    TIMEOUT | NO_NETWORK | SERVER_ERROR | CLIENT_ERROR | UNAUTHORIZED
  | FORBIDDEN | NOT_FOUND | CANCEL | UNKNOWN

text \<open>
  Everything the code can throw: a plain \<^verbatim>\<open>Error\<close> with its message, an \<^verbatim>\<open>AxiosError\<close>
  (its \<^verbatim>\<open>code\<close>, its \<^verbatim>\<open>message\<close>, the response when the server answered, the config of
  the request) and the \<^verbatim>\<open>NetworkError\<close> the error handler builds from either.
\<close>

datatype error =
    Error string
  | AxiosError "string option" string "AxiosResponse option" RequestConfig
  | NetworkError NetworkErrorType string "nat option" "error option"

subsection \<open>The world\<close>

text \<open>
  What a call can read and change: the two storage partitions, the clock, the log, and
  the two things the client does not control.
  \<^item> \<open>sfaults\<close> scripts the storage backends: each backend call takes the head of the
    list; \<open>Some m\<close> makes that call throw \<open>Error m\<close>, \<open>None\<close> or an empty list lets it
    succeed.
  \<^item> \<open>server\<close> gives the outcome of the \<open>i\<close>-th request the transport sends, with the
    time it took.
\<close>

datatype transport_result =
    Responded nat ApiResponse
  | NoResponse "string option" string

record reply =
  elapsed :: nat
  outcome :: transport_result

datatype LogLevel = DEBUG | INFO | WARN | ERROR

record LogEntry =
  level :: LogLevel
  text_of :: string
  module_of :: string

record world =
  secure :: "string \<rightharpoonup> string"
  cache :: "string \<rightharpoonup> string"
  sfaults :: "string option list"
  server :: "nat \<Rightarrow> RequestConfig \<Rightarrow> reply"
  dispatched :: nat
  now :: int
  logs :: "LogEntry list"
  console :: "string list"
  session :: AuthState

text \<open>
  An \<open>io\<close> always returns: a value or a thrown error, and the new world. A \<open>task\<close> may
  also never return (\<open>None\<close>): the network calls, which can re-enter themselves.
\<close>

type_synonym 'a io = "world \<Rightarrow> (error + 'a) \<times> world"
type_synonym 'a task = "world \<Rightarrow> ((error + 'a) \<times> world) option"

definition ret :: "'a \<Rightarrow> 'a io" where
  "ret v w = (Inr v, w)"

definition throw :: "error \<Rightarrow> 'a io" where
  "throw e w = (Inl e, w)"

definition bind :: "'a io \<Rightarrow> ('a \<Rightarrow> 'b io) \<Rightarrow> 'b io" where
  "bind m f w = (case m w of (Inl e, w') \<Rightarrow> (Inl e, w') | (Inr v, w') \<Rightarrow> f v w')"

definition try_catch :: "'a io \<Rightarrow> (error \<Rightarrow> 'a io) \<Rightarrow> 'a io" where
  "try_catch m h w = (case m w of (Inl e, w') \<Rightarrow> h e w' | (Inr v, w') \<Rightarrow> (Inr v, w'))"

definition lift :: "'a io \<Rightarrow> 'a task" where
  "lift m w = Some (m w)"

definition bindT :: "'a task \<Rightarrow> ('a \<Rightarrow> 'b task) \<Rightarrow> 'b task" where
  "bindT m f w = (case m w of None \<Rightarrow> None
     | Some (Inl e, w') \<Rightarrow> Some (Inl e, w')
     | Some (Inr v, w') \<Rightarrow> f v w')"

definition try_catchT :: "'a task \<Rightarrow> (error \<Rightarrow> 'a task) \<Rightarrow> 'a task" where
  "try_catchT m h w = (case m w of None \<Rightarrow> None
     | Some (Inl e, w') \<Rightarrow> h e w'
     | Some (Inr v, w') \<Rightarrow> Some (Inr v, w'))"

named_theorems io_defs

lemmas [io_defs] = ret_def throw_def bind_def try_catch_def lift_def bindT_def try_catchT_def

subsection \<open>Logger and console\<close>

text \<open>
  The logger never throws. The model records every call (level, message, module tag);
  the data argument is left out. \<^verbatim>\<open>console.error\<close> is recorded apart.
\<close>

definition logger :: "LogLevel \<Rightarrow> string \<Rightarrow> string \<Rightarrow> unit io" where
  "logger l m tag w =
     (Inr (), w\<lparr>logs := logs w @ [\<lparr>level = l, text_of = m, module_of = tag\<rparr>]\<rparr>)"

definition console_error :: "string \<Rightarrow> unit io" where
  "console_error m w = (Inr (), w\<lparr>console := console w @ [m]\<rparr>)"

text \<open>\<^verbatim>\<open>errorTracker.trackApiError\<close>: logs at error level under its own tag.\<close>

definition trackApiError :: "string \<Rightarrow> unit io" where
  "trackApiError m = logger ERROR (''[API] '' @ m) ''ErrorTracker''"

lemmas [io_defs] = logger_def console_error_def trackApiError_def

subsection \<open>Numbers as text\<close>

text \<open>
  \<^verbatim>\<open>Number.prototype.toString\<close> on a whole number: below \<open>10^21\<close> its decimal digits; from
  \<open>10^21\<close> on exponent notation, which is the digits up to the last one that is not zero,
  with a point after the first, and the power of ten. A minus sign if negative. (From
  \<open>10^21\<close> on the code writes the shortest digits that give the same float back; these
  are all the digits of the integer when it has no more than 15 that count.)
\<close>

definition digit_char :: "int \<Rightarrow> char" where
  "digit_char d = ''0123456789'' ! nat d"

function digits :: "int \<Rightarrow> string" where
  "digits n = (if n < 10 then [digit_char n] else digits (n div 10) @ [digit_char (n mod 10)])"
  by pat_completeness auto
termination
  by (relation "measure nat") auto

declare digits.simps [simp del]

definition significant :: "string \<Rightarrow> string" where
  "significant ds = rev (dropWhile (\<lambda>c. c = CHR ''0'') (rev ds))"

definition exponent_notation :: "int \<Rightarrow> string" where
  "exponent_notation n =
     (let ds = digits n
      in (case significant ds of
            [] \<Rightarrow> []
          | c # cs \<Rightarrow> if cs = [] then [c] else c # CHR ''.'' # cs)
         @ ''e+'' @ digits (int (length ds) - 1))"

definition unsigned_text :: "int \<Rightarrow> string" where
  "unsigned_text n = (if n < 10 ^ 21 then digits n else exponent_notation n)"

definition toString :: "int \<Rightarrow> string" where
  "toString i = (if i < 0 then CHR ''-'' # unsigned_text (- i) else unsigned_text i)"

text \<open>
  \<^verbatim>\<open>parseInt(s, 10)\<close>: leading white space is skipped, one sign is accepted, then the
  longest run of decimal digits is read, and whatever follows is ignored (of \<^verbatim>\<open>1.5e+21\<close>
  it reads 1); \<open>None\<close> is \<^verbatim>\<open>NaN\<close> (no digit there). The characters of a string are
  single bytes; the white space among them is the space, the no-break space and the
  control characters 9 to 13.
\<close>

definition is_digit :: "char \<Rightarrow> bool" where
  "is_digit c = (c \<in> set ''0123456789'')"

definition digit_val :: "char \<Rightarrow> int" where
  "digit_val c = of_char c - 48"

definition is_space :: "char \<Rightarrow> bool" where
  "is_space c = (c \<in> {CHR '' '', CHR 0x09, CHR 0x0A, CHR 0x0B, CHR 0x0C, CHR 0x0D, CHR 0xA0})"

definition digits_val :: "string \<Rightarrow> int" where
  "digits_val ds = foldl (\<lambda>acc c. acc * 10 + digit_val c) 0 ds"

definition parse_digits :: "string \<Rightarrow> int option" where
  "parse_digits s =
     (let ds = takeWhile is_digit s in if ds = [] then None else Some (digits_val ds))"

definition parseInt :: "string \<Rightarrow> int option" where
  "parseInt s =
     (case dropWhile is_space s of
        [] \<Rightarrow> None
      | c # cs \<Rightarrow>
          if c = CHR ''-'' then map_option uminus (parse_digits cs)
          else if c = CHR ''+'' then parse_digits cs
          else parse_digits (c # cs))"

text \<open>
  The time values of the language: the milliseconds a \<^verbatim>\<open>Date\<close> can hold, 100 million days
  either side of the epoch. All of them are below \<open>2^53\<close> in size, and so is each of them
  less the five-minute buffer.
\<close>

definition time_value :: "int \<Rightarrow> bool" where
  "time_value t = (- 8640000000000000 \<le> t \<and> t \<le> 8640000000000000)"

section \<open>Storage keys (\<^verbatim>\<open>storage-keys.ts\<close>)\<close>

definition STORAGE_PREFIX :: string where
  "STORAGE_PREFIX = ''@ExpoTemplate:''"

definition createKey :: "string \<Rightarrow> string" where
  "createKey k = STORAGE_PREFIX @ k"

definition AUTH_TOKEN :: string where
  "AUTH_TOKEN = createKey ''auth_token''"

definition REFRESH_TOKEN :: string where
  "REFRESH_TOKEN = createKey ''refresh_token''"

definition TOKEN_EXPIRE_TIME :: string where
  "TOKEN_EXPIRE_TIME = createKey ''token_expire_time''"

definition USER_INFO :: string where
  "USER_INFO = createKey ''user_info''"

named_theorems key_defs

lemmas [key_defs] =
  STORAGE_PREFIX_def createKey_def AUTH_TOKEN_def REFRESH_TOKEN_def
  TOKEN_EXPIRE_TIME_def USER_INFO_def

section \<open>The storage backends\<close>

text \<open>
  \<^verbatim>\<open>AsyncStorage\<close> behind the cache storage and \<^verbatim>\<open>SecureStore\<close> (on the web
  \<^verbatim>\<open>localStorage\<close>: both branches of the secure storage do the same to the partition)
  behind the secure storage. A call that throws changes nothing.
\<close>

definition backend_fault :: "world \<Rightarrow> string option \<times> world" where
  "backend_fault w =
     (case sfaults w of [] \<Rightarrow> (None, w) | f # fs \<Rightarrow> (f, w\<lparr>sfaults := fs\<rparr>))"

definition AsyncStorage_setItem :: "string \<Rightarrow> string \<Rightarrow> unit io" where
  "AsyncStorage_setItem k v w =
     (case backend_fault w of
        (Some m, w') \<Rightarrow> (Inl (Error m), w')
      | (None, w') \<Rightarrow> (Inr (), w'\<lparr>cache := (cache w')(k \<mapsto> v)\<rparr>))"

definition AsyncStorage_getItem :: "string \<Rightarrow> string option io" where
  "AsyncStorage_getItem k w =
     (case backend_fault w of
        (Some m, w') \<Rightarrow> (Inl (Error m), w')
      | (None, w') \<Rightarrow> (Inr (cache w' k), w'))"

definition AsyncStorage_removeItem :: "string \<Rightarrow> unit io" where
  "AsyncStorage_removeItem k w =
     (case backend_fault w of
        (Some m, w') \<Rightarrow> (Inl (Error m), w')
      | (None, w') \<Rightarrow> (Inr (), w'\<lparr>cache := (cache w')(k := None)\<rparr>))"

definition SecureStore_setItemAsync :: "string \<Rightarrow> string \<Rightarrow> unit io" where
  "SecureStore_setItemAsync k v w =
     (case backend_fault w of
        (Some m, w') \<Rightarrow> (Inl (Error m), w')
      | (None, w') \<Rightarrow> (Inr (), w'\<lparr>secure := (secure w')(k \<mapsto> v)\<rparr>))"

definition SecureStore_getItemAsync :: "string \<Rightarrow> string option io" where
  "SecureStore_getItemAsync k w =
     (case backend_fault w of
        (Some m, w') \<Rightarrow> (Inl (Error m), w')
      | (None, w') \<Rightarrow> (Inr (secure w' k), w'))"

definition SecureStore_deleteItemAsync :: "string \<Rightarrow> unit io" where
  "SecureStore_deleteItemAsync k w =
     (case backend_fault w of
        (Some m, w') \<Rightarrow> (Inl (Error m), w')
      | (None, w') \<Rightarrow> (Inr (), w'\<lparr>secure := (secure w')(k := None)\<rparr>))"

named_theorems backend_defs

lemmas [backend_defs] =
  backend_fault_def AsyncStorage_setItem_def AsyncStorage_getItem_def
  AsyncStorage_removeItem_def SecureStore_setItemAsync_def SecureStore_getItemAsync_def
  SecureStore_deleteItemAsync_def

section \<open>Cache storage (\<^verbatim>\<open>storage/cache-storage.ts\<close>)\<close>

definition cache_setItem :: "string \<Rightarrow> string \<Rightarrow> unit io" where
  "cache_setItem k v =
     try_catch (AsyncStorage_setItem k v)
       (\<lambda>e. bind (console_error (''[CacheStorage] Error saving '' @ k @ '':''))
               (\<lambda>_. throw e))"

definition cache_getItem :: "string \<Rightarrow> string option io" where
  "cache_getItem k =
     try_catch (AsyncStorage_getItem k)
       (\<lambda>e. bind (console_error (''[CacheStorage] Error reading '' @ k @ '':''))
               (\<lambda>_. ret None))"

definition cache_removeItem :: "string \<Rightarrow> unit io" where
  "cache_removeItem k =
     try_catch (AsyncStorage_removeItem k)
       (\<lambda>e. bind (console_error (''[CacheStorage] Error removing '' @ k @ '':''))
               (\<lambda>_. throw e))"

definition cache_setObject :: "JSON \<Rightarrow> string \<Rightarrow> json \<Rightarrow> unit io" where
  "cache_setObject J k v =
     try_catch (cache_setItem k (JSON_stringify J v))
       (\<lambda>e. bind (console_error (''[CacheStorage] Error saving object '' @ k @ '':''))
               (\<lambda>_. throw e))"

text \<open>
  \<^verbatim>\<open>return jsonValue ? JSON.parse(jsonValue) : null\<close>: an absent or an empty string gives
  null (\<open>JNull\<close>); a string the platform cannot parse throws inside the \<^verbatim>\<open>try\<close> and
  gives null as well.
\<close>

definition cache_getObject :: "JSON \<Rightarrow> string \<Rightarrow> json io" where
  "cache_getObject J k =
     try_catch
       (bind (cache_getItem k) (\<lambda>jsonValue.
          case jsonValue of
            None \<Rightarrow> ret JNull
          | Some s \<Rightarrow>
              if s = [] then ret JNull
              else (case JSON_parse J s of
                      None \<Rightarrow> throw (Error ''SyntaxError'')
                    | Some v \<Rightarrow> ret v)))
       (\<lambda>e. bind (console_error (''[CacheStorage] Error reading object '' @ k @ '':''))
               (\<lambda>_. ret JNull))"

section \<open>Secure storage (\<^verbatim>\<open>storage/secure-storage.ts\<close>)\<close>

definition secure_setItem :: "string \<Rightarrow> string \<Rightarrow> unit io" where
  "secure_setItem k v =
     try_catch (SecureStore_setItemAsync k v)
       (\<lambda>e. bind (console_error (''[SecureStorage] Error saving '' @ k @ '':''))
               (\<lambda>_. throw e))"

definition secure_getItem :: "string \<Rightarrow> string option io" where
  "secure_getItem k =
     try_catch (SecureStore_getItemAsync k)
       (\<lambda>e. bind (console_error (''[SecureStorage] Error reading '' @ k @ '':''))
               (\<lambda>_. ret None))"

definition secure_removeItem :: "string \<Rightarrow> unit io" where
  "secure_removeItem k =
     try_catch (SecureStore_deleteItemAsync k)
       (\<lambda>e. bind (console_error (''[SecureStorage] Error removing '' @ k @ '':''))
               (\<lambda>_. throw e))"

definition secure_setObject :: "JSON \<Rightarrow> string \<Rightarrow> json \<Rightarrow> unit io" where
  "secure_setObject J k v =
     try_catch (secure_setItem k (JSON_stringify J v))
       (\<lambda>e. bind (console_error (''[SecureStorage] Error saving object '' @ k @ '':''))
               (\<lambda>_. throw e))"

definition secure_getObject :: "JSON \<Rightarrow> string \<Rightarrow> json io" where
  "secure_getObject J k =
     try_catch
       (bind (secure_getItem k) (\<lambda>jsonValue.
          case jsonValue of
            None \<Rightarrow> ret JNull
          | Some s \<Rightarrow>
              if s = [] then ret JNull
              else (case JSON_parse J s of
                      None \<Rightarrow> throw (Error ''SyntaxError'')
                    | Some v \<Rightarrow> ret v)))
       (\<lambda>e. bind (console_error (''[SecureStorage] Error reading object '' @ k @ '':''))
               (\<lambda>_. ret JNull))"

named_theorems storage_defs

lemmas [storage_defs] =
  cache_setItem_def cache_getItem_def cache_removeItem_def cache_setObject_def
  cache_getObject_def secure_setItem_def secure_getItem_def secure_removeItem_def
  secure_setObject_def secure_getObject_def

section \<open>Auth storage (\<^verbatim>\<open>auth/auth-storage.ts\<close>)\<close>

definition Date_now :: "int io" where
  "Date_now w = (Inr (now w), w)"

definition saveToken :: "TokenInfo \<Rightarrow> unit io" where
  "saveToken tokenInfo =
     try_catch
       (bind (secure_setItem AUTH_TOKEN (accessToken tokenInfo)) (\<lambda>_.
        bind (case refreshToken tokenInfo of
                None \<Rightarrow> ret ()
              | Some rt \<Rightarrow> if rt = [] then ret () else secure_setItem REFRESH_TOKEN rt) (\<lambda>_.
        bind (case expiresIn tokenInfo of
                None \<Rightarrow> ret ()
              | Some secs \<Rightarrow>
                  if secs = 0 then ret ()
                  else bind Date_now (\<lambda>t.
                         let expireTime = t + secs * 1000
                         in cache_setItem TOKEN_EXPIRE_TIME (toString expireTime))) (\<lambda>_.
        logger DEBUG ''Token saved successfully'' ''AuthStorage''))))
       (\<lambda>e. bind (logger ERROR ''Failed to save token'' ''AuthStorage'') (\<lambda>_. throw e))"

definition getAccessToken :: "string option io" where
  "getAccessToken =
     try_catch (secure_getItem AUTH_TOKEN)
       (\<lambda>e. bind (logger ERROR ''Failed to get access token'' ''AuthStorage'')
               (\<lambda>_. ret None))"

definition getRefreshToken :: "string option io" where
  "getRefreshToken =
     try_catch (secure_getItem REFRESH_TOKEN)
       (\<lambda>e. bind (logger ERROR ''Failed to get refresh token'' ''AuthStorage'')
               (\<lambda>_. ret None))"

text \<open>
  The comparison \<^verbatim>\<open>now >= expireTime - bufferTime\<close> is false when \<^verbatim>\<open>parseInt\<close> gave
  \<^verbatim>\<open>NaN\<close>.
\<close>

definition bufferTime :: int where
  "bufferTime = 5 * 60 * 1000"

definition isTokenExpired :: "bool io" where
  "isTokenExpired =
     try_catch
       (bind (cache_getItem TOKEN_EXPIRE_TIME) (\<lambda>expireTimeStr.
          case expireTimeStr of
            None \<Rightarrow> ret False
          | Some s \<Rightarrow>
              if s = [] then ret False
              else bind Date_now (\<lambda>t.
                     case parseInt s of
                       None \<Rightarrow> ret False
                     | Some expireTime \<Rightarrow> ret (t \<ge> expireTime - bufferTime))))
       (\<lambda>e. bind (logger ERROR ''Failed to check token expiration'' ''AuthStorage'')
               (\<lambda>_. ret False))"

definition clearToken :: "unit io" where
  "clearToken =
     try_catch
       (bind (secure_removeItem AUTH_TOKEN) (\<lambda>_.
        bind (secure_removeItem REFRESH_TOKEN) (\<lambda>_.
        bind (cache_removeItem TOKEN_EXPIRE_TIME) (\<lambda>_.
        logger DEBUG ''Token cleared successfully'' ''AuthStorage''))))
       (\<lambda>e. bind (logger ERROR ''Failed to clear token'' ''AuthStorage'') (\<lambda>_. throw e))"

text \<open>
  \<^verbatim>\<open>saveUser\<close> reads \<^verbatim>\<open>user.id\<close> for its log line inside the \<^verbatim>\<open>try\<close>: on \<^verbatim>\<open>null\<close> that
  throws a \<^verbatim>\<open>TypeError\<close>, after the write.
\<close>

definition saveUser :: "JSON \<Rightarrow> json \<Rightarrow> unit io" where
  "saveUser J u =
     try_catch
       (bind (cache_setObject J USER_INFO u) (\<lambda>_.
          if u = JNull then throw (Error ''TypeError'')
          else logger DEBUG ''User info saved successfully'' ''AuthStorage''))
       (\<lambda>e. bind (logger ERROR ''Failed to save user info'' ''AuthStorage'') (\<lambda>_. throw e))"

definition getUser :: "JSON \<Rightarrow> json io" where
  "getUser J =
     try_catch (cache_getObject J USER_INFO)
       (\<lambda>e. bind (logger ERROR ''Failed to get user info'' ''AuthStorage'')
               (\<lambda>_. ret JNull))"

definition clearUser :: "unit io" where
  "clearUser =
     try_catch
       (bind (cache_removeItem USER_INFO) (\<lambda>_.
        logger DEBUG ''User info cleared successfully'' ''AuthStorage''))
       (\<lambda>e. bind (logger ERROR ''Failed to clear user info'' ''AuthStorage'') (\<lambda>_. throw e))"

text \<open>
  \<^verbatim>\<open>Promise.all\<close> of two calls. Both are started before either is awaited: the first
  function runs up to its first backend call, then the second function is started, and
  the first goes on when that first backend call of its has settled. A backend call that
  fails stops the function that made it and not the other one.

  To say this, the first function is given as a function of its first backend call:
  \<open>clearToken_from c\<close> is \<^verbatim>\<open>clearToken\<close> with \<open>c\<close> where it calls
  \<^verbatim>\<open>SecureStore.deleteItemAsync\<close> on the access token, and \<open>getAccessToken_from c\<close> is
  \<^verbatim>\<open>getAccessToken\<close> with \<open>c\<close> where it calls \<^verbatim>\<open>SecureStore.getItemAsync\<close>; \<open>settled r\<close> is
  a call that has settled with \<open>r\<close> before.
\<close>

definition settled :: "(error + 'a) \<Rightarrow> 'a io" where
  "settled r w = (r, w)"

definition clearToken_from :: "unit io \<Rightarrow> unit io" where
  "clearToken_from deleteItemAsync =
     try_catch
       (bind (try_catch deleteItemAsync
                (\<lambda>e. bind (console_error (''[SecureStorage] Error removing '' @ AUTH_TOKEN @ '':''))
                        (\<lambda>_. throw e))) (\<lambda>_.
        bind (secure_removeItem REFRESH_TOKEN) (\<lambda>_.
        bind (cache_removeItem TOKEN_EXPIRE_TIME) (\<lambda>_.
        logger DEBUG ''Token cleared successfully'' ''AuthStorage''))))
       (\<lambda>e. bind (logger ERROR ''Failed to clear token'' ''AuthStorage'') (\<lambda>_. throw e))"

definition getAccessToken_from :: "string option io \<Rightarrow> string option io" where
  "getAccessToken_from getItemAsync =
     try_catch
       (try_catch getItemAsync
          (\<lambda>e. bind (console_error (''[SecureStorage] Error reading '' @ AUTH_TOKEN @ '':''))
                  (\<lambda>_. ret None)))
       (\<lambda>e. bind (logger ERROR ''Failed to get access token'' ''AuthStorage'')
               (\<lambda>_. ret None))"

text \<open>
  \<open>Promise_all2 c p q\<close>: the first function is \<open>p c\<close> and makes the backend call \<open>c\<close>
  first; the second function \<open>q\<close> makes one backend call. The backend calls happen in the
  order in which they are issued, and settle in that order. The promise rejects with the
  rejection that comes first in time: that of the first function if its first backend
  call failed, else that of the second function, else a later one of the first. The
  world given is the one in which both functions have run to their end (when the promise
  has rejected, the other function still does). The log lines of the second function
  come before those the first writes after its first backend call.
\<close>

definition Promise_all2 :: "'x io \<Rightarrow> ('x io \<Rightarrow> 'a io) \<Rightarrow> 'b io \<Rightarrow> ('a \<times> 'b) io" where
  "Promise_all2 c p q w =
     (case c w of (r1, w1) \<Rightarrow>
      case q w1 of (rq, w2) \<Rightarrow>
      case p (settled r1) w2 of (rp, w3) \<Rightarrow>
        (if isl r1 then
           (case rp of
              Inl e \<Rightarrow> (Inl e, w3)
            | Inr x \<Rightarrow> (case rq of Inl e \<Rightarrow> (Inl e, w3) | Inr y \<Rightarrow> (Inr (x, y), w3)))
         else
           (case rq of
              Inl e \<Rightarrow> (Inl e, w3)
            | Inr y \<Rightarrow> (case rp of Inl e \<Rightarrow> (Inl e, w3) | Inr x \<Rightarrow> (Inr (x, y), w3)))))"

text \<open>
  \<^verbatim>\<open>Promise.all([this.clearToken(), this.clearUser()])\<close>: the removals are issued in the
  order access token, user, refresh token, expiry.
\<close>

definition clearAll :: "unit io" where
  "clearAll =
     try_catch
       (bind (Promise_all2 (SecureStore_deleteItemAsync AUTH_TOKEN) clearToken_from clearUser)
          (\<lambda>_.
        logger INFO ''All auth data cleared'' ''AuthStorage''))
       (\<lambda>e. bind (logger ERROR ''Failed to clear all auth data'' ''AuthStorage'')
               (\<lambda>_. throw e))"

named_theorems auth_storage_defs

lemmas [auth_storage_defs] =
  Date_now_def saveToken_def getAccessToken_def getRefreshToken_def isTokenExpired_def
  clearToken_def saveUser_def getUser_def clearUser_def settled_def clearToken_from_def
  getAccessToken_from_def Promise_all2_def clearAll_def

section \<open>Network error handling (\<^verbatim>\<open>network/error-handler.ts\<close>)\<close>

text \<open>
  The user-facing messages of the source are Chinese text; they are written here in
  English, one fixed string for each.
\<close>

definition HTTP_ERROR_MESSAGES :: "nat \<Rightarrow> string option" where
  "HTTP_ERROR_MESSAGES st =
     (if st = 400 then Some ''Bad request parameters''
      else if st = 401 then Some ''Unauthorized, please log in again''
      else if st = 403 then Some ''Access denied''
      else if st = 404 then Some ''The requested resource does not exist''
      else if st = 405 then Some ''Request method not allowed''
      else if st = 408 then Some ''Request timed out''
      else if st = 409 then Some ''Data conflict''
      else if st = 429 then Some ''Too many requests, try again later''
      else if st = 500 then Some ''Internal server error''
      else if st = 501 then Some ''Service not implemented''
      else if st = 502 then Some ''Gateway error''
      else if st = 503 then Some ''Service unavailable''
      else if st = 504 then Some ''Gateway timeout''
      else None)"

definition UNKNOWN_ERROR_MESSAGE :: string where
  "UNKNOWN_ERROR_MESSAGE = ''Unknown error''"

text \<open>\<^verbatim>\<open>String.prototype.includes\<close>.\<close>

fun str_includes :: "string \<Rightarrow> string \<Rightarrow> bool" where
  "str_includes [] sub = (sub = [])"
| "str_includes (c # cs) sub = (take (length sub) (c # cs) = sub \<or> str_includes cs sub)"

fun getErrorType :: "error \<Rightarrow> NetworkErrorType" where
  "getErrorType (AxiosError ecode msg None cfg) =
     (if ecode = Some ''ECONNABORTED'' \<or> str_includes msg ''timeout'' then TIMEOUT
      else if ecode = Some ''ERR_NETWORK'' \<or> str_includes msg ''Network Error'' then NO_NETWORK
      else if str_includes msg ''cancel'' then CANCEL
      else UNKNOWN)"
| "getErrorType (AxiosError ecode msg (Some r) cfg) =
     (let st = res_status r in
      if st = 401 then UNAUTHORIZED
      else if st = 403 then FORBIDDEN
      else if st = 404 then NOT_FOUND
      else if st \<ge> 400 \<and> st < 500 then CLIENT_ERROR
      else if st \<ge> 500 then SERVER_ERROR
      else UNKNOWN)"
| "getErrorType _ = UNKNOWN"

definition axios_message_text :: "string \<Rightarrow> string" where
  "axios_message_text msg =
     (if msg = [] then UNKNOWN_ERROR_MESSAGE
      else if str_includes msg ''timeout'' then ''Request timed out, check the network connection''
      else if str_includes msg ''Network Error'' then ''Network connection failed, check the network settings''
      else msg)"

fun getErrorMessage :: "error \<Rightarrow> string" where
  "getErrorMessage (AxiosError ecode msg None cfg) = axios_message_text msg"
| "getErrorMessage (AxiosError ecode msg (Some r) cfg) =
     (case message (res_data r) of
        Some m \<Rightarrow>
          if m \<noteq> [] then m
          else (case (if res_status r = 0 then None else HTTP_ERROR_MESSAGES (res_status r)) of
                  Some t \<Rightarrow> t
                | None \<Rightarrow> axios_message_text msg)
      | None \<Rightarrow>
          (case (if res_status r = 0 then None else HTTP_ERROR_MESSAGES (res_status r)) of
             Some t \<Rightarrow> t
           | None \<Rightarrow> axios_message_text msg))"
| "getErrorMessage _ = UNKNOWN_ERROR_MESSAGE"

fun show_type :: "NetworkErrorType \<Rightarrow> string" where
  "show_type TIMEOUT = ''TIMEOUT''"
| "show_type NO_NETWORK = ''NO_NETWORK''"
| "show_type SERVER_ERROR = ''SERVER_ERROR''"
| "show_type CLIENT_ERROR = ''CLIENT_ERROR''"
| "show_type UNAUTHORIZED = ''UNAUTHORIZED''"
| "show_type FORBIDDEN = ''FORBIDDEN''"
| "show_type NOT_FOUND = ''NOT_FOUND''"
| "show_type CANCEL = ''CANCEL''"
| "show_type UNKNOWN = ''UNKNOWN''"

text \<open>
  \<^verbatim>\<open>handleNetworkError\<close>: a value that has a \<^verbatim>\<open>type\<close> and a non-empty \<^verbatim>\<open>message\<close> is
  returned as it is; anything that is not an \<^verbatim>\<open>AxiosError\<close> becomes \<open>UNKNOWN\<close>; an
  \<^verbatim>\<open>AxiosError\<close> is classified and logged.
\<close>

fun handleNetworkError :: "error \<Rightarrow> error io" where
  "handleNetworkError (NetworkError t m c orig) =
     (if m \<noteq> [] then ret (NetworkError t m c orig)
      else bind (logger ERROR ''Unknown network error:'' ''NetworkErrorHandler'') (\<lambda>_.
           ret (NetworkError UNKNOWN UNKNOWN_ERROR_MESSAGE None
                  (Some (NetworkError t m c orig)))))"
| "handleNetworkError (Error m) =
     bind (logger ERROR ''Unknown network error:'' ''NetworkErrorHandler'') (\<lambda>_.
     ret (NetworkError UNKNOWN (if m \<noteq> [] then m else UNKNOWN_ERROR_MESSAGE) None
            (Some (Error m))))"
| "handleNetworkError (AxiosError ecode msg resp cfg) =
     (let axiosError = AxiosError ecode msg resp cfg;
          errorType = getErrorType axiosError;
          errorMessage = getErrorMessage axiosError;
          networkError = NetworkError errorType errorMessage (map_option res_status resp)
                           (Some axiosError)
      in bind (logger ERROR (''Network Error ['' @ show_type errorType @ '']: '' @ errorMessage)
                 ''NetworkErrorHandler'') (\<lambda>_.
         ret networkError))"

fun shouldReLogin :: "error \<Rightarrow> bool" where
  "shouldReLogin (NetworkError t m c orig) = (t = UNAUTHORIZED)"
| "shouldReLogin _ = False"

section \<open>Interceptors (\<^verbatim>\<open>network/interceptors.ts\<close>)\<close>

text \<open>
  The headers of a request are a list of name and value; \<open>set_header\<close> is the
  assignment \<^verbatim>\<open>headers[name] = value\<close>.
\<close>

fun set_header :: "string \<Rightarrow> string \<Rightarrow> (string \<times> string) list \<Rightarrow> (string \<times> string) list" where
  "set_header k v [] = [(k, v)]"
| "set_header k v ((k', v') # hs) =
     (if k = k' then (k, v) # hs else (k', v') # set_header k v hs)"

fun show_method :: "HttpMethod \<Rightarrow> string" where
  "show_method GET = ''GET''"
| "show_method POST = ''POST''"
| "show_method PUT = ''PUT''"
| "show_method DELETE = ''DELETE''"
| "show_method PATCH = ''PATCH''"

text \<open>
  The three module variables \<^verbatim>\<open>tokenGetter\<close>, \<^verbatim>\<open>tokenRefresher\<close> and \<^verbatim>\<open>logoutHandler\<close>
  start as \<^verbatim>\<open>null\<close> and are set by the auth service; the interceptors take them as
  arguments, \<open>None\<close> for \<^verbatim>\<open>null\<close>.
\<close>

definition request_interceptor ::
  "string option task option \<Rightarrow> RequestConfig \<Rightarrow> RequestConfig task" where
  "request_interceptor tokenGetter config =
     bindT (lift Date_now) (\<lambda>t.
     bindT (case tokenGetter of None \<Rightarrow> lift (ret None) | Some getter \<Rightarrow> getter) (\<lambda>tok.
       let c1 = config\<lparr>requestStartTime := Some t\<rparr>;
           c2 = (case tok of
                   None \<Rightarrow> c1
                 | Some tk \<Rightarrow>
                     if tk = [] then c1
                     else c1\<lparr>headers := set_header ''Authorization'' (''Bearer '' @ tk) (headers c1)\<rparr>);
           contentType = (case map_of (headers c2) ''Content-Type'' of
                            None \<Rightarrow> ''application/json''
                          | Some ct \<Rightarrow> if ct = [] then ''application/json'' else ct);
           c3 = c2\<lparr>headers := set_header ''Content-Type'' contentType (headers c2)\<rparr>
       in bindT (lift (logger DEBUG (''Request: '' @ show_method (http_method c3) @ '' '' @ url c3)
                         ''NetworkInterceptor'')) (\<lambda>_.
          lift (ret c3))))"

definition response_fulfilled :: "AxiosResponse \<Rightarrow> AxiosResponse io" where
  "response_fulfilled response =
     bind (case requestStartTime (res_config response) of
             None \<Rightarrow> ret ()
           | Some t0 \<Rightarrow>
               if t0 = 0 then ret ()
               else bind Date_now (\<lambda>t.
                      logger DEBUG
                        (''Response: '' @ show_method (http_method (res_config response)) @ '' ''
                           @ url (res_config response) @ '' ('' @ toString (t - t0) @ ''ms)'')
                        ''NetworkInterceptor'')) (\<lambda>_.
     bind (case code (res_data response) of
             None \<Rightarrow> ret ()
           | Some c \<Rightarrow>
               if c \<noteq> 0 \<and> c \<noteq> 200 then
                 logger WARN
                   (''API Error: '' @ toString c @ '' - ''
                      @ (case message (res_data response) of None \<Rightarrow> ''undefined'' | Some m \<Rightarrow> m))
                   ''NetworkInterceptor''
               else ret ()) (\<lambda>_.
     ret response))"

text \<open>
  \<^verbatim>\<open>error.config\<close>: the config of the request an \<^verbatim>\<open>AxiosError\<close> belongs to. Another
  error has none, and axios then sends its default request.
\<close>

definition default_config :: RequestConfig where
  "default_config =
     \<lparr>http_method = GET, url = [], body = None, headers = [], requestStartTime = None\<rparr>"

fun error_config :: "error \<Rightarrow> RequestConfig" where
  "error_config (AxiosError ecode msg resp cfg) = cfg"
| "error_config _ = default_config"

text \<open>
  The rejected branch of the response interceptor. The \<^verbatim>\<open>try\<close> covers the awaited
  refresher and the log line after it; \<^verbatim>\<open>return axios.request(error.config)\<close> hands the
  replay's promise back without awaiting it, so a failing replay is the result of the
  handler and does not reach the \<^verbatim>\<open>catch\<close>. \<open>axios_request\<close> is the \<^verbatim>\<open>request\<close> function
  of the instance the interceptor was installed on.
\<close>

definition response_rejected ::
  "unit task option \<Rightarrow> unit task option \<Rightarrow> (RequestConfig \<Rightarrow> AxiosResponse task)
     \<Rightarrow> error \<Rightarrow> AxiosResponse task" where
  "response_rejected tokenRefresher logoutHandler axios_request err =
     bindT (lift (handleNetworkError err)) (\<lambda>networkError.
       if shouldReLogin networkError then
         bindT (lift (logger INFO ''Token expired, attempting to refresh...''
                        ''NetworkInterceptor'')) (\<lambda>_.
         bindT (try_catchT
                  (case tokenRefresher of
                     None \<Rightarrow> lift (ret False)
                   | Some refresher \<Rightarrow>
                       bindT refresher (\<lambda>_.
                       bindT (lift (logger INFO ''Token refreshed, retrying request...''
                                      ''NetworkInterceptor'')) (\<lambda>_.
                       lift (ret True))))
                  (\<lambda>refreshError.
                     bindT (lift (logger ERROR ''Token refresh failed:''
                                    ''NetworkInterceptor'')) (\<lambda>_.
                     bindT (case logoutHandler of
                              None \<Rightarrow> lift (ret ())
                            | Some handler \<Rightarrow> handler) (\<lambda>_.
                     lift (ret False))))) (\<lambda>retry.
           if retry then axios_request (error_config err)
           else lift (throw networkError)))
       else lift (throw networkError))"

section \<open>The axios instance and the HTTP client (\<^verbatim>\<open>network/http-client.ts\<close>)\<close>

text \<open>
  The transport: the server's answer to the next request, the clock moved on by the time
  the exchange took. As axios does, a status from 200 to 299 resolves and any other
  status, or no answer at all, rejects with an \<^verbatim>\<open>AxiosError\<close>.
\<close>

definition dispatchRequest :: "RequestConfig \<Rightarrow> AxiosResponse io" where
  "dispatchRequest config w =
     (let r = server w (dispatched w) config;
          w' = w\<lparr>dispatched := dispatched w + 1, now := now w + int (elapsed r)\<rparr>
      in case outcome r of
           Responded st b \<Rightarrow>
             (let response = \<lparr>res_status = st, res_data = b, res_config = config\<rparr>
              in if 200 \<le> st \<and> st < 300 then (Inr response, w')
                 else (Inl (AxiosError
                              (if st \<ge> 500 then Some ''ERR_BAD_RESPONSE''
                               else if st \<ge> 400 then Some ''ERR_BAD_REQUEST'' else None)
                              (''Request failed with status code '' @ toString (int st))
                              (Some response) config), w'))
         | NoResponse ecode msg \<Rightarrow> (Inl (AxiosError ecode msg None config), w'))"

text \<open>
  One \<^verbatim>\<open>instance.request(config)\<close>: the request interceptor, the transport, then the
  response interceptor. A rejection of the request interceptor skips the transport and
  arrives at the rejected branch of the response interceptor, as in axios' promise
  chain.
\<close>

definition axios_instance_request ::
  "string option task option \<Rightarrow> unit task option \<Rightarrow> unit task option
     \<Rightarrow> (RequestConfig \<Rightarrow> AxiosResponse task) \<Rightarrow> RequestConfig \<Rightarrow> AxiosResponse task" where
  "axios_instance_request tokenGetter tokenRefresher logoutHandler self config w =
     (case request_interceptor tokenGetter config w of
        None \<Rightarrow> None
      | Some (Inl e, w1) \<Rightarrow> response_rejected tokenRefresher logoutHandler self e w1
      | Some (Inr cfg, w1) \<Rightarrow>
          (case dispatchRequest cfg w1 of
             (Inl e, w2) \<Rightarrow> response_rejected tokenRefresher logoutHandler self e w2
           | (Inr response, w2) \<Rightarrow> lift (response_fulfilled response) w2))"

text \<open>\<^verbatim>\<open>HttpClient.request\<close>, over the instance's \<^verbatim>\<open>request\<close>.\<close>

definition HttpClient_request ::
  "(RequestConfig \<Rightarrow> AxiosResponse task) \<Rightarrow> RequestConfig \<Rightarrow> payload task" where
  "HttpClient_request instance_request config =
     try_catchT
       (bindT (instance_request config) (\<lambda>response. lift (ret (data (res_data response)))))
       (\<lambda>e. bindT (lift (handleNetworkError e)) (\<lambda>networkError. lift (throw networkError)))"

definition instance_headers :: "(string \<times> string) list" where
  "instance_headers = [(''Content-Type'', ''application/json'')]"

definition HttpClient_post ::
  "(RequestConfig \<Rightarrow> AxiosResponse task) \<Rightarrow> string \<Rightarrow> json option \<Rightarrow> payload task" where
  "HttpClient_post instance_request u d =
     HttpClient_request instance_request
       \<lparr>http_method = POST, url = u, body = d, headers = instance_headers,
        requestStartTime = None\<rparr>"

named_theorems network_defs

lemmas [network_defs] =
  request_interceptor_def response_fulfilled_def response_rejected_def dispatchRequest_def
  axios_instance_request_def HttpClient_request_def HttpClient_post_def

section \<open>Auth service (\<^verbatim>\<open>auth/auth-service.ts\<close>)\<close>

definition API_auth_login :: string where
  "API_auth_login = ''/auth/login''"

definition API_auth_logout :: string where
  "API_auth_logout = ''/auth/logout''"

definition API_auth_refreshToken :: string where
  "API_auth_refreshToken = ''/auth/refresh-token''"

record LoginParams =
  username :: string
  password :: string
  captcha :: "string option"
  remember :: "bool option"

definition LoginParams_json :: "LoginParams \<Rightarrow> json" where
  "LoginParams_json p =
     JObj ([(''username'', JStr (username p)), (''password'', JStr (password p))]
           @ (case captcha p of None \<Rightarrow> [] | Some c \<Rightarrow> [(''captcha'', JStr c)])
           @ (case remember p of None \<Rightarrow> [] | Some r \<Rightarrow> [(''remember'', JBool r)]))"

text \<open>
  The payload at the type a caller declares for it. TypeScript's types are gone at run
  time: a JSON value with the members of the declared type, each of its declared type,
  is read as that type, whichever way the payload gives it. \<open>member\<close> is the property
  access on a value that is not null: \<open>None\<close> is \<^verbatim>\<open>undefined\<close>. A member that is missing or
  null is an absent optional member; a user that is missing is read as null.
\<close>

fun member :: "string \<Rightarrow> json \<Rightarrow> json option" where
  "member k (JObj kvs) = map_of kvs k"
| "member k _ = None"

fun optional_string :: "json option \<Rightarrow> string option option" where
  "optional_string None = Some None"
| "optional_string (Some JNull) = Some None"
| "optional_string (Some (JStr s)) = Some (Some s)"
| "optional_string (Some _) = None"

fun optional_number :: "json option \<Rightarrow> int option option" where
  "optional_number None = Some None"
| "optional_number (Some JNull) = Some None"
| "optional_number (Some (JNum n)) = Some (Some n)"
| "optional_number (Some _) = None"

definition json_TokenInfo :: "json \<Rightarrow> TokenInfo option" where
  "json_TokenInfo j =
     (case (member ''accessToken'' j, optional_string (member ''refreshToken'' j),
            optional_number (member ''expiresIn'' j), optional_string (member ''tokenType'' j)) of
        (Some (JStr a), Some r, Some x, Some t) \<Rightarrow>
          Some \<lparr>accessToken = a, refreshToken = r, expiresIn = x, tokenType = t\<rparr>
      | _ \<Rightarrow> None)"

fun as_TokenInfo :: "payload \<Rightarrow> TokenInfo option" where
  "as_TokenInfo (TokenInfoData t) = Some t"
| "as_TokenInfo (JsonData j) = json_TokenInfo j"
| "as_TokenInfo _ = None"

fun as_LoginResponse :: "payload \<Rightarrow> (json \<times> TokenInfo) option" where
  "as_LoginResponse (LoginResponseData u t) = Some (u, t)"
| "as_LoginResponse (JsonData j) =
     (case member ''token'' j of
        None \<Rightarrow> None
      | Some tj \<Rightarrow>
          (case json_TokenInfo tj of
             None \<Rightarrow> None
           | Some t \<Rightarrow> Some (case member ''user'' j of None \<Rightarrow> JNull | Some u \<Rightarrow> u, t)))"
| "as_LoginResponse _ = None"

fun no_value :: "payload \<Rightarrow> bool" where
  "no_value NoData = True"
| "no_value (JsonData JNull) = True"
| "no_value _ = False"

text \<open>
  The methods of the service, over the \<^verbatim>\<open>http.post\<close> they call. A payload with no value
  makes \<^verbatim>\<open>login\<close> throw a \<^verbatim>\<open>TypeError\<close> at \<^verbatim>\<open>response.token\<close>. A payload with no token
  makes \<^verbatim>\<open>saveToken\<close> throw it at \<^verbatim>\<open>tokenInfo.accessToken\<close>, which it logs and rethrows
  with nothing stored; a token with a member of another type than the declared one is
  treated in the same way.
\<close>

definition saveToken_untyped :: "'a io" where
  "saveToken_untyped =
     bind (logger ERROR ''Failed to save token'' ''AuthStorage'') (\<lambda>_.
     throw (Error ''TypeError''))"

definition login_with ::
  "JSON \<Rightarrow> (string \<Rightarrow> json option \<Rightarrow> payload task) \<Rightarrow> LoginParams \<Rightarrow> json task" where
  "login_with J post params =
     try_catchT
       (bindT (lift (logger INFO ''Attempting login'' ''AuthService'')) (\<lambda>_.
        bindT (post API_auth_login (Some (LoginParams_json params))) (\<lambda>response.
          case as_LoginResponse response of
            Some (u, t) \<Rightarrow>
              bindT (lift (saveToken t)) (\<lambda>_.
              bindT (lift (saveUser J u)) (\<lambda>_.
              bindT (lift (logger INFO ''Login successful'' ''AuthService'')) (\<lambda>_.
              lift (ret u))))
          | None \<Rightarrow>
              if no_value response then lift (throw (Error ''TypeError''))
              else lift saveToken_untyped)))
       (\<lambda>e. bindT (lift (logger ERROR ''Login failed'' ''AuthService'')) (\<lambda>_.
             bindT (lift (trackApiError ''login failed'')) (\<lambda>_.
             lift (throw e))))"

definition logout_with :: "(string \<Rightarrow> json option \<Rightarrow> payload task) \<Rightarrow> unit task" where
  "logout_with post =
     try_catchT
       (bindT (lift (logger INFO ''Attempting logout'' ''AuthService'')) (\<lambda>_.
        bindT (try_catchT
                 (bindT (post API_auth_logout None) (\<lambda>_. lift (ret ())))
                 (\<lambda>e. lift (logger WARN
                                ''Logout API call failed, continuing with local cleanup''
                                ''AuthService''))) (\<lambda>_.
        bindT (lift clearAll) (\<lambda>_.
        lift (logger INFO ''Logout successful'' ''AuthService'')))))
       (\<lambda>e. bindT (lift (logger ERROR ''Logout failed'' ''AuthService'')) (\<lambda>_.
             bindT (lift (trackApiError ''logout failed'')) (\<lambda>_.
             lift (throw e))))"

definition refreshToken_with :: "(string \<Rightarrow> json option \<Rightarrow> payload task) \<Rightarrow> unit task" where
  "refreshToken_with post =
     try_catchT
       (bindT (lift (logger INFO ''Attempting to refresh token'' ''AuthService'')) (\<lambda>_.
        bindT (lift getRefreshToken) (\<lambda>stored.
          case stored of
            None \<Rightarrow> lift (throw (Error ''No refresh token available''))
          | Some rt \<Rightarrow>
              if rt = [] then lift (throw (Error ''No refresh token available''))
              else
                bindT (post API_auth_refreshToken (Some (JObj [(''refreshToken'', JStr rt)])))
                  (\<lambda>response.
                bindT (case as_TokenInfo response of
                         Some t \<Rightarrow> lift (saveToken t)
                       | None \<Rightarrow> lift saveToken_untyped) (\<lambda>_.
                lift (logger INFO ''Token refreshed successfully'' ''AuthService''))))))
       (\<lambda>e. bindT (lift (logger ERROR ''Token refresh failed'' ''AuthService'')) (\<lambda>_.
             bindT (lift (trackApiError ''token refresh failed'')) (\<lambda>_.
             bindT (lift clearAll) (\<lambda>_.
             lift (throw e)))))"

definition checkAuth_with :: "unit task \<Rightarrow> bool task" where
  "checkAuth_with refresh =
     try_catchT
       (bindT (lift getAccessToken) (\<lambda>tok.
          if \<not> truthy_str tok then lift (ret False)
          else
            bindT (lift isTokenExpired) (\<lambda>isExpired.
              if isExpired then
                try_catchT (bindT refresh (\<lambda>_. lift (ret True))) (\<lambda>e. lift (ret False))
              else lift (ret True))))
       (\<lambda>e. bindT (lift (logger ERROR ''Auth check failed'' ''AuthService'')) (\<lambda>_.
             lift (ret False)))"

text \<open>
  The running system. The constructor of the auth service registers
  \<^verbatim>\<open>authStorage.getAccessToken\<close>, \<^verbatim>\<open>this.refreshToken\<close> and \<^verbatim>\<open>this.logout\<close> with the
  interceptors, and both methods post through the instance that carries those
  interceptors: the three functions call each other. The first argument bounds how
  deep these calls may nest; \<open>None\<close> means that the bound was reached before the call
  returned.
\<close>

fun instance_request :: "nat \<Rightarrow> RequestConfig \<Rightarrow> AxiosResponse task"
  and authService_refreshToken :: "nat \<Rightarrow> unit task"
  and authService_logout :: "nat \<Rightarrow> unit task" where
  "instance_request 0 config w = None"
| "instance_request (Suc n) config w =
     axios_instance_request (Some (lift getAccessToken)) (Some (authService_refreshToken n))
       (Some (authService_logout n)) (instance_request n) config w"
| "authService_refreshToken 0 w = None"
| "authService_refreshToken (Suc n) w =
     refreshToken_with (HttpClient_post (instance_request n)) w"
| "authService_logout 0 w = None"
| "authService_logout (Suc n) w = logout_with (HttpClient_post (instance_request n)) w"

definition http_request :: "nat \<Rightarrow> RequestConfig \<Rightarrow> payload task" where
  "http_request n = HttpClient_request (instance_request n)"

definition http_post :: "nat \<Rightarrow> string \<Rightarrow> json option \<Rightarrow> payload task" where
  "http_post n = HttpClient_post (instance_request n)"

definition authService_login :: "JSON \<Rightarrow> nat \<Rightarrow> LoginParams \<Rightarrow> json task" where
  "authService_login J n = login_with J (http_post n)"

definition authService_checkAuth :: "nat \<Rightarrow> bool task" where
  "authService_checkAuth n = checkAuth_with (authService_refreshToken n)"

named_theorems auth_service_defs

lemmas [auth_service_defs] =
  saveToken_untyped_def json_TokenInfo_def login_with_def logout_with_def refreshToken_with_def
  checkAuth_with_def
  http_request_def http_post_def authService_login_def authService_checkAuth_def

section \<open>Auth provider (\<^verbatim>\<open>auth/auth-context.tsx\<close>)\<close>

definition setStatus :: "AuthStatus \<Rightarrow> unit io" where
  "setStatus s w = (Inr (), w\<lparr>session := (session w)\<lparr>status := s\<rparr>\<rparr>)"

definition setUser :: "json \<Rightarrow> unit io" where
  "setUser u w = (Inr (), w\<lparr>session := (session w)\<lparr>user := u\<rparr>\<rparr>)"

definition setToken :: "string option \<Rightarrow> unit io" where
  "setToken t w = (Inr (), w\<lparr>session := (session w)\<lparr>token := t\<rparr>\<rparr>)"

definition initAuth_with :: "JSON \<Rightarrow> bool task \<Rightarrow> unit task" where
  "initAuth_with J checkAuth =
     try_catchT
       (bindT (lift (setStatus LOADING)) (\<lambda>_.
        bindT (lift (logger DEBUG ''Initializing auth state'' ''AuthContext'')) (\<lambda>_.
        bindT (lift (Promise_all2 (SecureStore_getItemAsync AUTH_TOKEN) getAccessToken_from
                       (getUser J))) (\<lambda>(savedToken, savedUser).
          if truthy_str savedToken \<and> truthy savedUser then
            bindT checkAuth (\<lambda>isAuthenticated.
              if isAuthenticated then
                bindT (lift (setToken savedToken)) (\<lambda>_.
                bindT (lift (setUser savedUser)) (\<lambda>_.
                bindT (lift (setStatus AUTHENTICATED)) (\<lambda>_.
                lift (logger INFO ''Auth state restored'' ''AuthContext''))))
              else
                bindT (lift clearAll) (\<lambda>_.
                bindT (lift (setStatus UNAUTHENTICATED)) (\<lambda>_.
                lift (logger INFO ''Stored token invalid, cleared'' ''AuthContext''))))
          else
            bindT (lift (setStatus UNAUTHENTICATED)) (\<lambda>_.
            lift (logger DEBUG ''No stored auth data found'' ''AuthContext''))))))
       (\<lambda>e. bindT (lift (logger ERROR ''Failed to initialize auth'' ''AuthContext'')) (\<lambda>_.
             lift (setStatus UNAUTHENTICATED)))"

definition provider_login_with :: "json task \<Rightarrow> unit task" where
  "provider_login_with service_login =
     try_catchT
       (bindT (lift (setStatus LOADING)) (\<lambda>_.
        bindT (lift (logger INFO ''Login initiated'' ''AuthContext'')) (\<lambda>_.
        bindT service_login (\<lambda>loggedInUser.
        bindT (lift getAccessToken) (\<lambda>newToken.
        bindT (lift (setUser loggedInUser)) (\<lambda>_.
        bindT (lift (setToken newToken)) (\<lambda>_.
        bindT (lift (setStatus AUTHENTICATED)) (\<lambda>_.
        lift (logger INFO ''Login successful'' ''AuthContext'')))))))))
       (\<lambda>e. bindT (lift (setStatus UNAUTHENTICATED)) (\<lambda>_.
             bindT (lift (logger ERROR ''Login failed'' ''AuthContext'')) (\<lambda>_.
             lift (throw e))))"

definition initAuth :: "JSON \<Rightarrow> nat \<Rightarrow> unit task" where
  "initAuth J n = initAuth_with J (authService_checkAuth n)"

definition provider_login :: "JSON \<Rightarrow> nat \<Rightarrow> LoginParams \<Rightarrow> unit task" where
  "provider_login J n params = provider_login_with (authService_login J n params)"

named_theorems provider_defs

lemmas [provider_defs] =
  setStatus_def setUser_def setToken_def initAuth_with_def provider_login_with_def
  initAuth_def provider_login_def

section \<open>Worlds used in the statements\<close>

text \<open>
  A fresh installation: empty partitions, working storage, and no network (every request
  fails with axios' \<^verbatim>\<open>Network Error\<close>).
\<close>

definition initial_world :: world where
  "initial_world =
     \<lparr>secure = Map.empty, cache = Map.empty, sfaults = [],
      server = (\<lambda>_ _. \<lparr>elapsed = 0,
                        outcome = NoResponse (Some ''ERR_NETWORK'') ''Network Error''\<rparr>),
      dispatched = 0, now = 1700000000000, logs = [], console = [],
      session = \<lparr>status = IDLE, user = JNull, token = None\<rparr>\<rparr>"

text \<open>The next call of a storage backend does not throw.\<close>

definition next_call_succeeds :: "world \<Rightarrow> bool" where
  "next_call_succeeds w = (fst (backend_fault w) = None)"

section \<open>Observations on worlds and calls\<close>

text \<open>The four entries of the credential store, and the store with none of them.\<close>

definition credentials ::
  "world \<Rightarrow> string option \<times> string option \<times> string option \<times> string option" where
  "credentials w =
     (secure w AUTH_TOKEN, secure w REFRESH_TOKEN, cache w TOKEN_EXPIRE_TIME, cache w USER_INFO)"

definition cleared :: "world \<Rightarrow> bool" where
  "cleared w = (credentials w = (None, None, None, None))"

text \<open>A call returns; a call returns without throwing.\<close>

definition returns :: "'a task \<Rightarrow> world \<Rightarrow> bool" where
  "returns t w = (t w \<noteq> None)"

definition succeeds :: "'a task \<Rightarrow> world \<Rightarrow> bool" where
  "succeeds t w = (case t w of Some (Inr v, w') \<Rightarrow> True | _ \<Rightarrow> False)"

text \<open>
  What \<^verbatim>\<open>checkAuth\<close> sees: whether \<^verbatim>\<open>getAccessToken()\<close> gives a non-empty token, whether
  \<^verbatim>\<open>isTokenExpired()\<close> then says true, and the world in which it would call
  \<^verbatim>\<open>refreshToken()\<close>.
\<close>

definition token_present :: "world \<Rightarrow> bool" where
  "token_present w = (case fst (getAccessToken w) of Inr t \<Rightarrow> truthy_str t | Inl e \<Rightarrow> False)"

definition at_expiry_check :: "world \<Rightarrow> world" where
  "at_expiry_check w = snd (getAccessToken w)"

definition token_expired :: "world \<Rightarrow> bool" where
  "token_expired w = (fst (isTokenExpired (at_expiry_check w)) = Inr True)"

definition at_refresh :: "world \<Rightarrow> world" where
  "at_refresh w = snd (isTokenExpired (at_expiry_check w))"

text \<open>A call that leaves a working storage working.\<close>

definition keeps_working :: "'a task \<Rightarrow> bool" where
  "keeps_working t = (\<forall>w r w'. sfaults w = [] \<longrightarrow> t w = Some (r, w') \<longrightarrow> sfaults w' = [])"



definition result_and_store ::
  "((error + 'a) \<times> world) option
     \<Rightarrow> ((error + 'a) \<times> string option \<times> string option \<times> string option \<times> string option) option"
  where
  "result_and_store r = map_option (\<lambda>(x, w). (x, credentials w)) r"

section \<open>A JSON codec for the examples\<close>

text \<open>
  The statements take \<^verbatim>\<open>JSON.stringify\<close> and \<^verbatim>\<open>JSON.parse\<close> as a parameter. The examples
  need one instance: compact JSON text, strings with the quote and the backslash
  escaped, integers in decimal.
\<close>

definition dquote :: char where
  "dquote = CHR 0x22"

definition backslash :: char where
  "backslash = CHR 0x5C"

fun escape :: "string \<Rightarrow> string" where
  "escape [] = []"
| "escape (c # cs) =
     (if c = dquote \<or> c = backslash then backslash # c # escape cs else c # escape cs)"

definition quote :: "string \<Rightarrow> string" where
  "quote s = dquote # escape s @ [dquote]"

fun stringify :: "json \<Rightarrow> string"
  and stringify_elems :: "json list \<Rightarrow> string"
  and stringify_members :: "(string \<times> json) list \<Rightarrow> string" where
  "stringify JNull = ''null''"
| "stringify (JBool b) = (if b then ''true'' else ''false'')"
| "stringify (JNum n) = toString n"
| "stringify (JStr s) = quote s"
| "stringify (JArr xs) = ''['' @ stringify_elems xs @ '']''"
| "stringify (JObj kvs) = ''{'' @ stringify_members kvs @ ''}''"
| "stringify_elems [] = []"
| "stringify_elems [x] = stringify x"
| "stringify_elems (x # y # ys) = stringify x @ '','' @ stringify_elems (y # ys)"
| "stringify_members [] = []"
| "stringify_members [(k, v)] = quote k @ '':'' @ stringify v"
| "stringify_members ((k, v) # kv # kvs) =
     quote k @ '':'' @ stringify v @ '','' @ stringify_members (kv # kvs)"

text \<open>The text after an opening quote, up to the closing one.\<close>

fun parse_string :: "string \<Rightarrow> (string \<times> string) option" where
  "parse_string [] = None"
| "parse_string [c] = (if c = dquote then Some ([], []) else None)"
| "parse_string (c # d # cs) =
     (if c = dquote then Some ([], d # cs)
      else if c = backslash then map_option (\<lambda>(s, r). (d # s, r)) (parse_string cs)
      else map_option (\<lambda>(s, r). (c # s, r)) (parse_string (d # cs)))"

definition parse_number :: "string \<Rightarrow> (json \<times> string) option" where
  "parse_number s =
     (case s of
        [] \<Rightarrow> None
      | c # cs \<Rightarrow>
          if c = CHR ''-'' then
            (case parse_digits cs of
               None \<Rightarrow> None
             | Some n \<Rightarrow> Some (JNum (- n), dropWhile is_digit cs))
          else
            (case parse_digits s of
               None \<Rightarrow> None
             | Some n \<Rightarrow> Some (JNum n, dropWhile is_digit s)))"

text \<open>The first argument bounds the nesting depth of the value read.\<close>

fun parse_value :: "nat \<Rightarrow> string \<Rightarrow> (json \<times> string) option"
  and parse_elems :: "nat \<Rightarrow> string \<Rightarrow> (json list \<times> string) option"
  and parse_members :: "nat \<Rightarrow> string \<Rightarrow> ((string \<times> json) list \<times> string) option" where
  "parse_value 0 s = None"
| "parse_value (Suc n) s =
     (if take 4 s = ''null'' then Some (JNull, drop 4 s)
      else if take 4 s = ''true'' then Some (JBool True, drop 4 s)
      else if take 5 s = ''false'' then Some (JBool False, drop 5 s)
      else if take 1 s = [dquote] then
        map_option (\<lambda>(t, r). (JStr t, r)) (parse_string (drop 1 s))
      else if take 2 s = ''[]'' then Some (JArr [], drop 2 s)
      else if take 1 s = ''['' then
        map_option (\<lambda>(xs, r). (JArr xs, r)) (parse_elems n (drop 1 s))
      else if take 2 s = ''{}'' then Some (JObj [], drop 2 s)
      else if take 1 s = ''{'' then
        map_option (\<lambda>(kvs, r). (JObj kvs, r)) (parse_members n (drop 1 s))
      else parse_number s)"
| "parse_elems 0 s = None"
| "parse_elems (Suc n) s =
     (case parse_value (Suc n) s of
        None \<Rightarrow> None
      | Some (x, r) \<Rightarrow>
          if take 1 r = '']'' then Some ([x], drop 1 r)
          else if take 1 r = '','' then
            map_option (\<lambda>(xs, r'). (x # xs, r')) (parse_elems n (drop 1 r))
          else None)"
| "parse_members 0 s = None"
| "parse_members (Suc n) s =
     (if take 1 s = [dquote] then
        (case parse_string (drop 1 s) of
           None \<Rightarrow> None
         | Some (k, r) \<Rightarrow>
             if take 1 r = '':'' then
               (case parse_value (Suc n) (drop 1 r) of
                  None \<Rightarrow> None
                | Some (x, r') \<Rightarrow>
                    if take 1 r' = ''}'' then Some ([(k, x)], drop 1 r')
                    else if take 1 r' = '','' then
                      map_option (\<lambda>(kvs, r''). ((k, x) # kvs, r'')) (parse_members n (drop 1 r'))
                    else None)
             else None)
      else None)"

definition parse :: "string \<Rightarrow> json option" where
  "parse s = (case parse_value (Suc (length s)) s of Some (v, []) \<Rightarrow> Some v | _ \<Rightarrow> None)"

definition json_codec :: JSON where
  "json_codec = \<lparr>JSON_stringify = stringify, JSON_parse = parse\<rparr>"

section \<open>Scenarios\<close>

text \<open>The world in which \<^verbatim>\<open>logout\<close> calls \<^verbatim>\<open>clearAll\<close>, after a POST that gave \<open>r1\<close>.\<close>

definition before_clear :: "(error + payload) \<Rightarrow> world \<Rightarrow> world" where
  "before_clear r1 w1 =
     (case r1 of
        Inl e \<Rightarrow> snd (logger WARN ''Logout API call failed, continuing with local cleanup''
                       ''AuthService'' w1)
      | Inr v \<Rightarrow> w1)"

definition alice :: json where
  "alice = JObj [(''id'', JStr ''1''), (''username'', JStr ''alice'')]"

definition token_A1 :: TokenInfo where
  "token_A1 = \<lparr>accessToken = ''A1'', refreshToken = Some ''R1'', expiresIn = Some 3600,
               tokenType = None\<rparr>"

definition token_A2 :: TokenInfo where
  "token_A2 = \<lparr>accessToken = ''A2'', refreshToken = Some ''R2'', expiresIn = Some 3600,
               tokenType = Some ''Bearer''\<rparr>"

definition answer :: "nat \<Rightarrow> payload \<Rightarrow> reply" where
  "answer st d =
     \<lparr>elapsed = 20, outcome = Responded st \<lparr>code = Some 0, message = Some ''ok'', data = d\<rparr>\<rparr>"

definition status_only :: "nat \<Rightarrow> reply" where
  "status_only st =
     \<lparr>elapsed = 20, outcome = Responded st \<lparr>code = None, message = None, data = NoData\<rparr>\<rparr>"

text \<open>
  A signed-in installation whose access token is inside the five-minute buffer: tokens
  \<open>A0\<close> and \<open>R0\<close>, expiry 100 seconds ahead, user alice.
\<close>

definition signed_in_world :: world where
  "signed_in_world = initial_world
     \<lparr>secure := [AUTH_TOKEN \<mapsto> ''A0'', REFRESH_TOKEN \<mapsto> ''R0''],
      cache := [TOKEN_EXPIRE_TIME \<mapsto> ''1700000100000'', USER_INFO \<mapsto> stringify alice]\<rparr>"

text \<open>Servers: one that answers every request with the given status and no envelope.\<close>

definition status_server :: "nat \<Rightarrow> nat \<Rightarrow> RequestConfig \<Rightarrow> reply" where
  "status_server st i c = status_only st"

text \<open>One that refreshes tokens and serves data.\<close>

definition good_server :: "nat \<Rightarrow> RequestConfig \<Rightarrow> reply" where
  "good_server i c =
     (if url c = API_auth_refreshToken then answer 200 (TokenInfoData token_A2)
      else if url c = API_auth_login then answer 200 (LoginResponseData alice token_A1)
      else answer 200 (JsonData (JNum 42)))"


text \<open>One that reports a business error in a 200 response.\<close>

definition business_error :: ApiResponse where
  "business_error =
     \<lparr>code = Some 4001, message = Some ''insufficient balance'', data = JsonData (JNum 7)\<rparr>"

definition business_error_server :: "nat \<Rightarrow> RequestConfig \<Rightarrow> reply" where
  "business_error_server i c = \<lparr>elapsed = 20, outcome = Responded 200 business_error\<rparr>"

definition get_data :: RequestConfig where
  "get_data =
     \<lparr>http_method = GET, url = ''/data'', body = None, headers = instance_headers,
      requestStartTime = None\<rparr>"

definition alice_params :: LoginParams where
  "alice_params = \<lparr>username = ''alice'', password = ''x'', captcha = None, remember = None\<rparr>"

text \<open>
  The startup sequence: the world in which it reads the store, what it reads, the world
  in which it calls \<^verbatim>\<open>checkAuth()\<close>, and the worlds it ends in.
\<close>

definition at_restore :: "world \<Rightarrow> world" where
  "at_restore w =
     snd (logger DEBUG ''Initializing auth state'' ''AuthContext'' (snd (setStatus LOADING w)))"

definition restore :: "JSON \<Rightarrow> world \<Rightarrow> (error + string option \<times> json) \<times> world" where
  "restore J w =
     Promise_all2 (SecureStore_getItemAsync AUTH_TOKEN) getAccessToken_from (getUser J)
       (at_restore w)"

definition saved_token :: "JSON \<Rightarrow> world \<Rightarrow> string option" where
  "saved_token J w = (case fst (restore J w) of Inr (t, u) \<Rightarrow> t | Inl e \<Rightarrow> None)"

definition saved_user :: "JSON \<Rightarrow> world \<Rightarrow> json" where
  "saved_user J w = (case fst (restore J w) of Inr (t, u) \<Rightarrow> u | Inl e \<Rightarrow> JNull)"

definition at_checkAuth :: "JSON \<Rightarrow> world \<Rightarrow> world" where
  "at_checkAuth J w = snd (restore J w)"

definition restored :: "json \<Rightarrow> string option \<Rightarrow> world \<Rightarrow> world" where
  "restored u t w2 =
     snd (logger INFO ''Auth state restored'' ''AuthContext''
       (snd (setStatus AUTHENTICATED (snd (setUser u (snd (setToken t w2)))))))"

definition signed_out :: "string \<Rightarrow> LogLevel \<Rightarrow> world \<Rightarrow> world" where
  "signed_out m l w2 = snd (logger l m ''AuthContext'' (snd (setStatus UNAUTHENTICATED w2)))"

definition init_failed :: "world \<Rightarrow> world" where
  "init_failed w2 =
     snd (setStatus UNAUTHENTICATED
            (snd (logger ERROR ''Failed to initialize auth'' ''AuthContext'' w2)))"

text \<open>
  A world in which every request is answered 401, the storage works and a refresh token
  is stored.
\<close>

definition refused_forever :: "world \<Rightarrow> bool" where
  "refused_forever w =
     ((\<forall>i c. server w i c = status_only 401) \<and> sfaults w = [] \<and>
      (\<exists>rt. secure w REFRESH_TOKEN = Some rt \<and> rt \<noteq> []))"












text \<open>A server that answers every request with the login response of the scenario.\<close>

definition login_server :: "nat \<Rightarrow> RequestConfig \<Rightarrow> reply" where
  "login_server i c = answer 200 (LoginResponseData alice token_A1)"

section \<open>Numbers as text: \<open>parseInt\<close> reads back what \<open>toString\<close> wrote\<close>

lemma small_digit_cases:
  "0 \<le> d \<Longrightarrow> d < 10 \<Longrightarrow>
   d = 0 \<or> d = 1 \<or> d = 2 \<or> d = 3 \<or> d = 4 \<or> d = 5 \<or> d = 6 \<or> d = 7 \<or> d = 8 \<or> d = (9::int)"
  by arith

lemma digit_val_digit_char: "0 \<le> d \<Longrightarrow> d < 10 \<Longrightarrow> digit_val (digit_char d) = d"
  using small_digit_cases[of d] by (auto simp: digit_val_def digit_char_def)

lemma is_digit_digit_char: "0 \<le> d \<Longrightarrow> d < 10 \<Longrightarrow> is_digit (digit_char d)"
  using small_digit_cases[of d] by (auto simp: is_digit_def digit_char_def)

lemma digits_all: "0 \<le> n \<Longrightarrow> \<forall>c \<in> set (digits n). is_digit c"
proof (induction n rule: digits.induct)
  case (1 n)
  show ?case
  proof (cases "n < 10")
    case True
    with 1 show ?thesis by (subst digits.simps) (simp add: is_digit_digit_char)
  next
    case False
    with 1 show ?thesis by (subst digits.simps) (simp add: is_digit_digit_char)
  qed
qed

lemma digits_nonempty: "digits n \<noteq> []"
  by (subst digits.simps) auto

lemma digits_val_snoc: "digits_val (ds @ [c]) = digits_val ds * 10 + digit_val c"
  by (simp add: digits_val_def)

lemma digits_val_digits: "0 \<le> n \<Longrightarrow> digits_val (digits n) = n"
proof (induction n rule: digits.induct)
  case (1 n)
  show ?case
  proof (cases "n < 10")
    case True
    with 1 show ?thesis
      by (subst digits.simps) (simp add: digits_val_def digit_val_digit_char)
  next
    case False
    with 1 show ?thesis
      by (subst digits.simps) (simp add: digits_val_snoc digit_val_digit_char)
  qed
qed

lemma parse_digits_digits: "0 \<le> n \<Longrightarrow> parse_digits (digits n) = Some n"
  using digits_all[of n]
  by (simp add: parse_digits_def Let_def digits_nonempty digits_val_digits
        takeWhile_eq_all_conv[THEN iffD2])

lemma is_digit_not_special:
  "is_digit c \<Longrightarrow> \<not> is_space c \<and> c \<noteq> CHR ''-'' \<and> c \<noteq> CHR ''+''"
  by (auto simp: is_digit_def is_space_def)

lemma small_toString:
  "\<bar>i\<bar> < 10 ^ 21 \<Longrightarrow> toString i = (if i < 0 then CHR ''-'' # digits (- i) else digits i)"
  by (auto simp: toString_def unsigned_text_def abs_less_iff)

lemma toString_nonempty: "toString i \<noteq> []"
  by (simp add: toString_def unsigned_text_def exponent_notation_def Let_def digits_nonempty)

lemma parseInt_toString:
  assumes "\<bar>i\<bar> < 10 ^ 21"
  shows "parseInt (toString i) = Some i"
proof (cases "i < 0")
  case True
  then show ?thesis
    using assms by (simp add: parseInt_def small_toString is_space_def parse_digits_digits)
next
  case False
  obtain c cs where d: "digits i = c # cs"
    using digits_nonempty[of i] by (cases "digits i") auto
  with False have "is_digit c" using digits_all[of i] by simp
  then have ns: "\<not> is_space c" "c \<noteq> CHR ''-''" "c \<noteq> CHR ''+''"
    using is_digit_not_special by auto
  have "parse_digits (c # cs) = Some i"
    using parse_digits_digits[of i] d False by simp
  with False ns d assms show ?thesis by (simp add: parseInt_def small_toString)
qed

lemma time_value_small: "time_value t \<Longrightarrow> \<bar>t\<bar> < 10 ^ 21"
  by (auto simp: time_value_def abs_less_iff)

text \<open>
  From \<open>10^21\<close> on the text is in exponent notation, and \<^verbatim>\<open>parseInt\<close> reads the digits
  before the point only.
\<close>

lemma large_number_text:
  "toString (10 ^ 22) = ''1e+22''"
  "toString 1500000000000000000000 = ''1.5e+21''"
  "parseInt (toString 1500000000000000000000) = Some 1"
  by code_simp+

section \<open>Storage failures: reads give null, writes and removals throw\<close>

lemma reads_resolve:
  "\<exists>x. fst (cache_getItem k w) = Inr x"
  "\<exists>x. fst (secure_getItem k w) = Inr x"
  "\<exists>x. fst (cache_getObject J k w) = Inr x"
  "\<exists>x. fst (secure_getObject J k w) = Inr x"
  "\<exists>x. fst (getAccessToken w) = Inr x"
  "\<exists>x. fst (getRefreshToken w) = Inr x"
  "\<exists>x. fst (getUser J w) = Inr x"
  by (auto simp: storage_defs auth_storage_defs io_defs backend_defs
        split: list.splits option.splits prod.splits sum.splits)

lemma failed_reads_absent:
  assumes "sfaults w = Some m # fs"
  shows "fst (cache_getItem k w) = Inr None"
    and "fst (secure_getItem k w) = Inr None"
    and "fst (cache_getObject J k w) = Inr JNull"
    and "fst (secure_getObject J k w) = Inr JNull"
    and "fst (getAccessToken w) = Inr None"
    and "fst (getRefreshToken w) = Inr None"
    and "fst (getUser J w) = Inr JNull"
  using assms
  by (auto simp: storage_defs auth_storage_defs io_defs backend_defs
        split: list.splits option.splits prod.splits sum.splits)

lemma failed_writes_throw:
  assumes "sfaults w = Some m # fs"
  shows "fst (cache_setItem k v w) = Inl (Error m)"
    and "fst (cache_removeItem k w) = Inl (Error m)"
    and "fst (cache_setObject J k u w) = Inl (Error m)"
    and "fst (secure_setItem k v w) = Inl (Error m)"
    and "fst (secure_removeItem k w) = Inl (Error m)"
    and "fst (secure_setObject J k u w) = Inl (Error m)"
  using assms
  by (auto simp: storage_defs auth_storage_defs io_defs backend_defs
        split: list.splits option.splits prod.splits sum.splits)

text \<open>
  C8. In both partitions, and in the auth-storage getters built on them, a read always
  resolves, and resolves to null when the backend call throws; a write or a removal
  whose backend call throws \<open>Error m\<close> rejects with that same \<open>Error m\<close>.
\<close>

theorem storage_failure_policy:
  "(\<exists>x. fst (cache_getItem k w) = Inr x) \<and> (\<exists>x. fst (secure_getItem k w) = Inr x) \<and>
   (\<exists>x. fst (cache_getObject J k w) = Inr x) \<and> (\<exists>x. fst (secure_getObject J k w) = Inr x) \<and>
   (\<exists>x. fst (getAccessToken w) = Inr x) \<and> (\<exists>x. fst (getRefreshToken w) = Inr x) \<and>
   (\<exists>x. fst (getUser J w) = Inr x) \<and>
   (\<forall>m fs. sfaults w = Some m # fs \<longrightarrow>
      fst (cache_getItem k w) = Inr None \<and> fst (secure_getItem k w) = Inr None \<and>
      fst (cache_getObject J k w) = Inr JNull \<and> fst (secure_getObject J k w) = Inr JNull \<and>
      fst (getAccessToken w) = Inr None \<and> fst (getRefreshToken w) = Inr None \<and>
      fst (getUser J w) = Inr JNull \<and>
      fst (cache_setItem k v w) = Inl (Error m) \<and>
      fst (cache_removeItem k w) = Inl (Error m) \<and>
      fst (cache_setObject J k u w) = Inl (Error m) \<and>
      fst (secure_setItem k v w) = Inl (Error m) \<and>
      fst (secure_removeItem k w) = Inl (Error m) \<and>
      fst (secure_setObject J k u w) = Inl (Error m))"
  by (intro conjI allI impI;
      (rule reads_resolve | rule failed_reads_absent | rule failed_writes_throw); assumption)

theorem storage_failure_policy_witness:
  "sfaults (initial_world\<lparr>sfaults := [Some ''disk error'']\<rparr>) = [Some ''disk error''] \<and>
   fst (cache_getItem USER_INFO (initial_world\<lparr>sfaults := [Some ''disk error'']\<rparr>))
     = Inr None \<and>
   fst (getAccessToken (initial_world\<lparr>sfaults := [Some ''disk error'']\<rparr>)) = Inr None \<and>
   fst (cache_setItem USER_INFO ''u'' (initial_world\<lparr>sfaults := [Some ''disk error'']\<rparr>))
     = Inl (Error ''disk error'') \<and>
   fst (secure_removeItem USER_INFO (initial_world\<lparr>sfaults := [Some ''disk error'']\<rparr>))
     = Inl (Error ''disk error'')"
  using storage_failure_policy
          [of USER_INFO "initial_world\<lparr>sfaults := [Some ''disk error'']\<rparr>" _ "''u''"]
  by (simp add: initial_world_def)

section \<open>Token expiry\<close>

lemma isTokenExpired_stored:
  assumes "next_call_succeeds w" and "cache w TOKEN_EXPIRE_TIME = Some s" and "s \<noteq> []"
  shows "fst (isTokenExpired w)
           = Inr (case parseInt s of None \<Rightarrow> False | Some e \<Rightarrow> now w \<ge> e - bufferTime)"
  using assms
  by (auto simp: next_call_succeeds_def storage_defs auth_storage_defs io_defs backend_defs
        split: list.splits option.splits prod.splits sum.splits)

lemma isTokenExpired_absent:
  assumes "next_call_succeeds w" and "cache w TOKEN_EXPIRE_TIME = None"
  shows "fst (isTokenExpired w) = Inr False"
  using assms
  by (auto simp: next_call_succeeds_def storage_defs auth_storage_defs io_defs backend_defs
        split: list.splits option.splits prod.splits sum.splits)

lemma isTokenExpired_read_failed:
  assumes "\<not> next_call_succeeds w"
  shows "fst (isTokenExpired w) = Inr False"
  using assms
  by (auto simp: next_call_succeeds_def storage_defs auth_storage_defs io_defs backend_defs
        split: list.splits option.splits prod.splits sum.splits)

text \<open>
  C3. With an expiry stored and read without failure, \<^verbatim>\<open>isTokenExpired()\<close> is true exactly
  when \<open>now \<ge> storedExpiry - 5 * 60 * 1000\<close>, where \<open>storedExpiry\<close> is the time value that
  \<^verbatim>\<open>parseInt\<close> reads from the stored text; that is the time value \<^verbatim>\<open>saveToken\<close> wrote, since
  \<^verbatim>\<open>parseInt\<close> reads back what \<^verbatim>\<open>toString\<close> writes of a time value. With no expiry stored,
  or when the read fails, it is false.
\<close>

theorem isTokenExpired_spec:
  "(next_call_succeeds w \<and> cache w TOKEN_EXPIRE_TIME = Some s \<and>
    parseInt s = Some storedExpiry \<and> time_value storedExpiry \<longrightarrow>
      fst (isTokenExpired w) = Inr (now w \<ge> storedExpiry - 5 * 60 * 1000)) \<and>
   (time_value storedExpiry \<longrightarrow> parseInt (toString storedExpiry) = Some storedExpiry) \<and>
   (next_call_succeeds w \<and> cache w TOKEN_EXPIRE_TIME = Some (toString storedExpiry) \<and>
    time_value storedExpiry \<longrightarrow>
      fst (isTokenExpired w) = Inr (now w \<ge> storedExpiry - 5 * 60 * 1000)) \<and>
   (cache w TOKEN_EXPIRE_TIME = None \<or> \<not> next_call_succeeds w \<longrightarrow>
      fst (isTokenExpired w) = Inr False)"
proof (intro conjI impI)
  assume a: "next_call_succeeds w \<and> cache w TOKEN_EXPIRE_TIME = Some s \<and>
             parseInt s = Some storedExpiry \<and> time_value storedExpiry"
  then have "s \<noteq> []" by (auto simp: parseInt_def)
  with a show "fst (isTokenExpired w) = Inr (now w \<ge> storedExpiry - 5 * 60 * 1000)"
    using isTokenExpired_stored[of w s] by (simp add: bufferTime_def)
next
  assume "time_value storedExpiry"
  then show "parseInt (toString storedExpiry) = Some storedExpiry"
    by (rule parseInt_toString[OF time_value_small])
next
  assume a: "next_call_succeeds w \<and> cache w TOKEN_EXPIRE_TIME = Some (toString storedExpiry) \<and>
             time_value storedExpiry"
  then show "fst (isTokenExpired w) = Inr (now w \<ge> storedExpiry - 5 * 60 * 1000)"
    using isTokenExpired_stored[of w "toString storedExpiry"]
      parseInt_toString[OF time_value_small, of storedExpiry]
    by (simp add: toString_nonempty bufferTime_def)
next
  assume "cache w TOKEN_EXPIRE_TIME = None \<or> \<not> next_call_succeeds w"
  then show "fst (isTokenExpired w) = Inr False"
    using isTokenExpired_absent[of w] isTokenExpired_read_failed[of w] by auto
qed

text \<open>
  The theorem at the clock 1700000000000: an expiry 200 seconds ahead is inside the
  buffer, one 400 seconds ahead is not; stored as \<^verbatim>\<open>saveToken\<close> writes it, and stored with
  white space before and text after the digits. Then with nothing stored, and with a
  read that fails.
\<close>

theorem isTokenExpired_spec_witness:
  "next_call_succeeds (initial_world\<lparr>cache := [TOKEN_EXPIRE_TIME \<mapsto> toString 1700000200000]\<rparr>) \<and>
   time_value 1700000200000 \<and> time_value 1700000400000 \<and>
   parseInt (toString 1700000200000) = Some 1700000200000 \<and>
   fst (isTokenExpired (initial_world\<lparr>cache := [TOKEN_EXPIRE_TIME \<mapsto> toString 1700000200000]\<rparr>))
     = Inr True \<and>
   fst (isTokenExpired (initial_world\<lparr>cache := [TOKEN_EXPIRE_TIME \<mapsto> toString 1700000400000]\<rparr>))
     = Inr False \<and>
   parseInt '' 1700000400000.5'' = Some 1700000400000 \<and>
   fst (isTokenExpired (initial_world\<lparr>cache := [TOKEN_EXPIRE_TIME \<mapsto> '' 1700000400000.5'']\<rparr>))
     = Inr False \<and>
   cache initial_world TOKEN_EXPIRE_TIME = None \<and>
   fst (isTokenExpired initial_world) = Inr False \<and>
   \<not> next_call_succeeds
       (initial_world\<lparr>cache := [TOKEN_EXPIRE_TIME \<mapsto> toString 1700000200000],
                      sfaults := [Some ''disk error'']\<rparr>) \<and>
   fst (isTokenExpired
          (initial_world\<lparr>cache := [TOKEN_EXPIRE_TIME \<mapsto> toString 1700000200000],
                         sfaults := [Some ''disk error'']\<rparr>)) = Inr False"
proof -
  have t: "time_value 1700000200000" "time_value 1700000400000"
    by (simp_all add: time_value_def)
  have p: "parseInt '' 1700000400000.5'' = Some 1700000400000" by code_simp
  show ?thesis
    using isTokenExpired_spec
          [of "initial_world\<lparr>cache := [TOKEN_EXPIRE_TIME \<mapsto> toString 1700000200000]\<rparr>"
              _ 1700000200000]
    isTokenExpired_spec
          [of "initial_world\<lparr>cache := [TOKEN_EXPIRE_TIME \<mapsto> toString 1700000400000]\<rparr>"
              _ 1700000400000]
    isTokenExpired_spec
          [of "initial_world\<lparr>cache := [TOKEN_EXPIRE_TIME \<mapsto> '' 1700000400000.5'']\<rparr>"
              "'' 1700000400000.5''" 1700000400000]
    isTokenExpired_spec [of initial_world]
    isTokenExpired_spec
          [of "initial_world\<lparr>cache := [TOKEN_EXPIRE_TIME \<mapsto> toString 1700000200000],
                              sfaults := [Some ''disk error'']\<rparr>"]
    t p
    by (simp add: initial_world_def next_call_succeeds_def backend_fault_def)
qed

section \<open>Business codes in a successful response\<close>

lemma getAccessToken_frame:
  "server (snd (getAccessToken w)) = server w"
  "dispatched (snd (getAccessToken w)) = dispatched w"
  "now (snd (getAccessToken w)) = now w"
  "session (snd (getAccessToken w)) = session w"
  by (auto simp: storage_defs auth_storage_defs io_defs backend_defs
        split: list.splits option.splits prod.splits sum.splits)

text \<open>
  C2. When the server answers the request with a 2xx response whose envelope has a code
  \<open>c\<close> other than 0 and 200, \<^verbatim>\<open>HttpClient.request\<close> resolves with the envelope's
  \<^verbatim>\<open>data\<close>, and the warning \<^verbatim>\<open>API Error: c - message\<close> is in the log.
\<close>

theorem non_success_code_resolves:
  assumes "\<forall>cfg. outcome (server w (dispatched w) cfg) = Responded st b"
      and "200 \<le> st" and "st < 300" and "code b = Some c" and "c \<noteq> 0" and "c \<noteq> 200"
  shows "\<exists>w'. http_request (Suc n) config w = Some (Inr (data b), w') \<and>
           \<lparr>level = WARN,
            text_of = ''API Error: '' @ toString c @ '' - ''
                        @ (case message b of None \<Rightarrow> ''undefined'' | Some m \<Rightarrow> m),
            module_of = ''NetworkInterceptor''\<rparr> \<in> set (logs w')"
proof -
  obtain r w1 where g: "getAccessToken w = (r, w1)" by (cases "getAccessToken w")
  obtain tok where r: "r = Inr tok" using reads_resolve(5)[of w] g by auto
  have f: "server w1 = server w" "dispatched w1 = dispatched w"
    using getAccessToken_frame[of w] g by auto
  show ?thesis
    using assms g r f
    by (auto simp: auth_service_defs network_defs io_defs Date_now_def Let_def
          split: option.splits)
qed

text \<open>
  The theorem at a server that answers 200 with code 4001: the call resolves with the
  data, and the warning is logged.
\<close>

theorem non_success_code_resolves_witness:
  "(\<forall>cfg. outcome (server (initial_world\<lparr>server := business_error_server\<rparr>)
                    (dispatched (initial_world\<lparr>server := business_error_server\<rparr>)) cfg)
            = Responded 200 business_error) \<and>
   (200::nat) \<le> 200 \<and> (200::nat) < 300 \<and> code business_error = Some 4001 \<and>
   (4001::int) \<noteq> 0 \<and> (4001::int) \<noteq> 200 \<and>
   (\<exists>w'. http_request (Suc 0) get_data (initial_world\<lparr>server := business_error_server\<rparr>)
            = Some (Inr (JsonData (JNum 7)), w') \<and>
          \<lparr>level = WARN, text_of = ''API Error: 4001 - insufficient balance'',
           module_of = ''NetworkInterceptor''\<rparr> \<in> set (logs w'))"
proof -
  let ?w = "initial_world\<lparr>server := business_error_server\<rparr>"
  have h1: "\<forall>cfg. outcome (server ?w (dispatched ?w) cfg) = Responded 200 business_error"
    by (simp add: business_error_server_def)
  have h2: "code business_error = Some 4001" by (simp add: business_error_def)
  have t: "toString 4001 = ''4001''" by code_simp
  from non_success_code_resolves[OF h1 _ _ h2, of 0 get_data]
  have "\<exists>w'. http_request (Suc 0) get_data ?w = Some (Inr (data business_error), w') \<and>
           \<lparr>level = WARN,
            text_of = ''API Error: '' @ toString 4001 @ '' - ''
                        @ (case message business_error of None \<Rightarrow> ''undefined'' | Some m \<Rightarrow> m),
            module_of = ''NetworkInterceptor''\<rparr> \<in> set (logs w')"
    by simp
  then show ?thesis using h1 h2 by (simp add: t business_error_def)
qed

section \<open>Clearing the credential store\<close>

lemmas all_storage_defs = storage_defs auth_storage_defs io_defs backend_defs

lemmas monad_defs = ret_def throw_def bind_def try_catch_def lift_def bindT_def try_catchT_def

lemma keys_distinct:
  "AUTH_TOKEN \<noteq> REFRESH_TOKEN" "TOKEN_EXPIRE_TIME \<noteq> USER_INFO"
  "REFRESH_TOKEN \<noteq> AUTH_TOKEN" "USER_INFO \<noteq> TOKEN_EXPIRE_TIME"
  by (simp_all add: key_defs)

lemma first_backend_call:
  "clearToken = clearToken_from (SecureStore_deleteItemAsync AUTH_TOKEN)"
  "getAccessToken = getAccessToken_from (SecureStore_getItemAsync AUTH_TOKEN)"
  by (simp_all add: clearToken_def clearToken_from_def secure_removeItem_def
        getAccessToken_def getAccessToken_from_def secure_getItem_def)

lemma working_storage:
  assumes "sfaults w = []"
  shows "secure_setItem k v w = (Inr (), w\<lparr>secure := (secure w)(k \<mapsto> v)\<rparr>)"
    and "secure_getItem k w = (Inr (secure w k), w)"
    and "secure_removeItem k w = (Inr (), w\<lparr>secure := (secure w)(k := None)\<rparr>)"
    and "cache_setItem k v w = (Inr (), w\<lparr>cache := (cache w)(k \<mapsto> v)\<rparr>)"
    and "cache_getItem k w = (Inr (cache w k), w)"
    and "cache_removeItem k w = (Inr (), w\<lparr>cache := (cache w)(k := None)\<rparr>)"
  using assms by (simp_all add: storage_defs io_defs backend_defs)

lemma clearAll_working:
  assumes "sfaults w = []"
  shows "clearAll w =
     (Inr (), w\<lparr>secure := (secure w)(AUTH_TOKEN := None, REFRESH_TOKEN := None),
                cache := (cache w)(USER_INFO := None, TOKEN_EXPIRE_TIME := None),
                logs := logs w @
                  [\<lparr>level = DEBUG, text_of = ''User info cleared successfully'',
                    module_of = ''AuthStorage''\<rparr>,
                   \<lparr>level = DEBUG, text_of = ''Token cleared successfully'',
                    module_of = ''AuthStorage''\<rparr>,
                   \<lparr>level = INFO, text_of = ''All auth data cleared'',
                    module_of = ''AuthStorage''\<rparr>]\<rparr>)"
  using assms
  by (simp add: clearAll_def Promise_all2_def clearToken_from_def clearUser_def settled_def
        SecureStore_deleteItemAsync_def backend_fault_def working_storage io_defs)

lemma clearAll_working_cleared:
  "sfaults w = [] \<Longrightarrow> fst (clearAll w) = Inr () \<and> cleared (snd (clearAll w))"
  by (simp add: clearAll_working cleared_def credentials_def keys_distinct)

lemma clearAll_cleared: "fst (clearAll w) = Inr () \<Longrightarrow> cleared (snd (clearAll w))"
  by (auto simp: all_storage_defs cleared_def credentials_def keys_distinct
        split: list.splits option.splits prod.splits sum.splits if_splits)

lemma clearAll_frame:
  "dispatched (snd (clearAll w)) = dispatched w"
  "session (snd (clearAll w)) = session w"
  "server (snd (clearAll w)) = server w"
  by (auto simp: all_storage_defs split: list.splits option.splits prod.splits sum.splits)

lemma clearAll_second_removal_fails:
  "(fst (clearAll (signed_in_world\<lparr>sfaults := [None, Some ''disk error'']\<rparr>)),
    credentials (snd (clearAll (signed_in_world\<lparr>sfaults := [None, Some ''disk error'']\<rparr>))))
   = (Inl (Error ''disk error''), None, None, None, Some (stringify alice))"
  "(fst (clearAll (signed_in_world\<lparr>sfaults := [Some ''keychain locked'']\<rparr>)),
    credentials (snd (clearAll (signed_in_world\<lparr>sfaults := [Some ''keychain locked'']\<rparr>))))
   = (Inl (Error ''keychain locked''), Some ''A0'', Some ''R0'', Some ''1700000100000'', None)"
  by code_simp+

section \<open>A working storage stays working\<close>

lemma getAccessToken_working:
  "sfaults w = [] \<Longrightarrow> getAccessToken w = (Inr (secure w AUTH_TOKEN), w)"
  by (simp add: getAccessToken_def working_storage io_defs)

lemma getRefreshToken_working:
  "sfaults w = [] \<Longrightarrow> getRefreshToken w = (Inr (secure w REFRESH_TOKEN), w)"
  by (simp add: getRefreshToken_def working_storage io_defs)

lemma storage_stays_working:
  assumes "sfaults w = []"
  shows "sfaults (snd (saveToken t w)) = []"
    and "sfaults (snd (saveUser J u w)) = []"
    and "sfaults (snd (getUser J w)) = []"
    and "sfaults (snd (isTokenExpired w)) = []"
    and "sfaults (snd (clearAll w)) = []"
    and "sfaults (snd (saveToken_untyped w)) = []"
  using assms
  by (auto simp: saveToken_def saveUser_def getUser_def isTokenExpired_def cache_setObject_def
        cache_getObject_def clearAll_working saveToken_untyped_def
        working_storage io_defs Date_now_def Let_def split: option.splits)

lemma sfaults_untouched:
  "sfaults (snd (handleNetworkError e w)) = sfaults w"
  "sfaults (snd (response_fulfilled response w)) = sfaults w"
  "sfaults (snd (dispatchRequest config w)) = sfaults w"
  "sfaults (snd (logger l m t w)) = sfaults w"
  subgoal by (cases e) (simp_all add: io_defs Let_def)
  subgoal by (auto simp: response_fulfilled_def io_defs Date_now_def split: option.splits)
  subgoal by (auto simp: dispatchRequest_def Let_def split: transport_result.splits)
  subgoal by (simp add: logger_def)
  done

lemma keeps_workingD:
  "keeps_working t \<Longrightarrow> sfaults w = [] \<Longrightarrow> t w = Some (r, w') \<Longrightarrow> sfaults w' = []"
  unfolding keeps_working_def by blast

lemma keeps_workingI:
  "(\<And>w r w'. sfaults w = [] \<Longrightarrow> t w = Some (r, w') \<Longrightarrow> sfaults w' = []) \<Longrightarrow> keeps_working t"
  unfolding keeps_working_def by blast

lemma keeps_lift:
  assumes "\<And>w. sfaults w = [] \<Longrightarrow> sfaults (snd (m w)) = []"
  shows "keeps_working (lift m)"
proof (rule keeps_workingI)
  fix w r w'
  assume s: "sfaults w = []" and e: "lift m w = Some (r, w')"
  from e have "w' = snd (m w)" by (cases "m w") (simp add: lift_def)
  with assms[OF s] show "sfaults w' = []" by simp
qed

lemma keeps_bindT:
  assumes "keeps_working m" and "\<And>v. keeps_working (f v)"
  shows "keeps_working (bindT m f)"
proof (rule keeps_workingI)
  fix w r w'
  assume s: "sfaults w = []" and b: "bindT m f w = Some (r, w')"
  show "sfaults w' = []"
  proof (cases "m w")
    case None
    with b show ?thesis by (simp add: bindT_def)
  next
    case (Some p)
    obtain x w1 where p: "p = (x, w1)" by (cases p)
    have mw: "m w = Some (x, w1)" using Some p by simp
    have w1: "sfaults w1 = []" by (rule keeps_workingD[OF assms(1) s mw])
    show ?thesis
    proof (cases x)
      case (Inl e)
      with b mw w1 show ?thesis by (simp add: bindT_def)
    next
      case (Inr v)
      with b mw have "f v w1 = Some (r, w')" by (simp add: bindT_def)
      then show ?thesis by (rule keeps_workingD[OF assms(2) w1])
    qed
  qed
qed

lemma keeps_try_catchT:
  assumes "keeps_working m" and "\<And>e. keeps_working (h e)"
  shows "keeps_working (try_catchT m h)"
proof (rule keeps_workingI)
  fix w r w'
  assume s: "sfaults w = []" and b: "try_catchT m h w = Some (r, w')"
  show "sfaults w' = []"
  proof (cases "m w")
    case None
    with b show ?thesis by (simp add: try_catchT_def)
  next
    case (Some p)
    obtain x w1 where p: "p = (x, w1)" by (cases p)
    have mw: "m w = Some (x, w1)" using Some p by simp
    have w1: "sfaults w1 = []" by (rule keeps_workingD[OF assms(1) s mw])
    show ?thesis
    proof (cases x)
      case (Inr v)
      with b mw w1 show ?thesis by (simp add: try_catchT_def)
    next
      case (Inl e)
      with b mw have "h e w1 = Some (r, w')" by (simp add: try_catchT_def)
      then show ?thesis by (rule keeps_workingD[OF assms(2) w1])
    qed
  qed
qed

lemma keeps_simple [simp]:
  "keeps_working (lift (logger l m t))"
  "keeps_working (lift (ret v))"
  "keeps_working (lift (throw e))"
  "keeps_working (lift (handleNetworkError e))"
  "keeps_working (lift (response_fulfilled response))"
  "keeps_working (lift (trackApiError m))"
  "keeps_working (lift clearAll)"
  "keeps_working (lift (saveToken tk))"
  "keeps_working (lift saveToken_untyped)"
  "keeps_working (lift getRefreshToken)"
  "keeps_working (lift getAccessToken)"
  "keeps_working (lift Date_now)"
  subgoal by (rule keeps_lift) (simp add: logger_def)
  subgoal by (rule keeps_lift) (simp add: ret_def)
  subgoal by (rule keeps_lift) (simp add: throw_def)
  subgoal by (rule keeps_lift) (simp add: sfaults_untouched)
  subgoal by (rule keeps_lift) (simp add: sfaults_untouched)
  subgoal by (rule keeps_lift) (simp add: trackApiError_def logger_def)
  subgoal by (rule keeps_lift) (simp add: storage_stays_working)
  subgoal by (rule keeps_lift) (simp add: storage_stays_working)
  subgoal by (rule keeps_lift) (simp add: storage_stays_working)
  subgoal by (rule keeps_lift) (simp add: getRefreshToken_working)
  subgoal by (rule keeps_lift) (simp add: getAccessToken_working)
  subgoal by (rule keeps_lift) (simp add: Date_now_def)
  done

lemma HttpClient_request_keeps:
  "(\<And>c. keeps_working (inst c)) \<Longrightarrow> keeps_working (HttpClient_request inst config)"
  unfolding HttpClient_request_def
  by (intro keeps_try_catchT keeps_bindT) simp_all

lemma HttpClient_post_keeps:
  "(\<And>c. keeps_working (inst c)) \<Longrightarrow> keeps_working (HttpClient_post inst u d)"
  unfolding HttpClient_post_def by (rule HttpClient_request_keeps)


lemma refreshToken_with_keeps:
  assumes "\<And>u d. keeps_working (post u d)"
  shows "keeps_working (refreshToken_with post)"
  unfolding refreshToken_with_def
  by (intro keeps_try_catchT keeps_bindT)
     (auto intro!: keeps_bindT assms split: option.splits)

lemma logout_with_keeps:
  assumes "\<And>u d. keeps_working (post u d)"
  shows "keeps_working (logout_with post)"
  unfolding logout_with_def
  by (intro keeps_try_catchT keeps_bindT) (auto intro!: assms)

lemma request_interceptor_keeps:
  "keeps_working (request_interceptor (Some (lift getAccessToken)) config)"
  unfolding request_interceptor_def Let_def
  by (intro keeps_bindT) simp_all

lemma response_rejected_keeps:
  assumes "keeps_working refresher" and "keeps_working handler"
      and "\<And>c. keeps_working (self c)"
  shows "keeps_working (response_rejected (Some refresher) (Some handler) self err)"
  unfolding response_rejected_def
  by (intro keeps_bindT keeps_try_catchT)
     (auto intro!: keeps_bindT keeps_try_catchT assms)

lemma axios_instance_request_keeps:
  assumes "keeps_working refresher" and "keeps_working handler"
      and "\<And>c. keeps_working (self c)"
  shows "keeps_working
           (axios_instance_request (Some (lift getAccessToken)) (Some refresher) (Some handler)
              self config)"
proof (rule keeps_workingI)
  fix w r w'
  assume s: "sfaults w = []"
    and a: "axios_instance_request (Some (lift getAccessToken)) (Some refresher) (Some handler)
              self config w = Some (r, w')"
  have rj: "\<And>e. keeps_working (response_rejected (Some refresher) (Some handler) self e)"
    using assms by (rule response_rejected_keeps)
  show "sfaults w' = []"
  proof (cases "request_interceptor (Some (lift getAccessToken)) config w")
    case None
    with a show ?thesis by (simp add: axios_instance_request_def)
  next
    case (Some p)
    obtain x w1 where p: "p = (x, w1)" by (cases p)
    have ri: "request_interceptor (Some (lift getAccessToken)) config w = Some (x, w1)"
      using Some p by simp
    have w1: "sfaults w1 = []" by (rule keeps_workingD[OF request_interceptor_keeps s ri])
    show ?thesis
    proof (cases x)
      case (Inl e)
      with a ri have "response_rejected (Some refresher) (Some handler) self e w1 = Some (r, w')"
        by (simp add: axios_instance_request_def)
      then show ?thesis by (rule keeps_workingD[OF rj w1])
    next
      case (Inr cfg)
      obtain y w2 where d: "dispatchRequest cfg w1 = (y, w2)" by (cases "dispatchRequest cfg w1")
      have w2: "sfaults w2 = []"
        using sfaults_untouched(3)[of cfg w1] d w1 by simp
      show ?thesis
      proof (cases y)
        case (Inl e)
        with a ri Inr d
        have "response_rejected (Some refresher) (Some handler) self e w2 = Some (r, w')"
          by (simp add: axios_instance_request_def)
        then show ?thesis by (rule keeps_workingD[OF rj w2])
      next
        case (Inr response)
        with a ri \<open>x = Inr cfg\<close> d
        have "lift (response_fulfilled response) w2 = Some (r, w')"
          by (simp add: axios_instance_request_def)
        then show ?thesis by (rule keeps_workingD[OF keeps_simple(5) w2])
      qed
    qed
  qed
qed

text \<open>
  With a working storage, whatever the network does, the storage still works when a
  request, a refresh or a logout returns.
\<close>

lemma system_keeps_working:
  "(\<forall>c. keeps_working (instance_request n c)) \<and> keeps_working (authService_refreshToken n) \<and>
   keeps_working (authService_logout n)"
proof (induction n)
  case 0
  show ?case by (simp add: keeps_working_def)
next
  case (Suc n)
  have i: "\<And>c. keeps_working (instance_request n c)"
    and r: "keeps_working (authService_refreshToken n)"
    and l: "keeps_working (authService_logout n)"
    using Suc by auto
  have p: "\<And>u d. keeps_working (HttpClient_post (instance_request n) u d)"
    using i by (rule HttpClient_post_keeps)
  have a: "\<And>c. keeps_working (instance_request (Suc n) c)"
  proof -
    fix c
    have "instance_request (Suc n) c
            = axios_instance_request (Some (lift getAccessToken))
                (Some (authService_refreshToken n)) (Some (authService_logout n))
                (instance_request n) c"
      by (rule ext) simp
    then show "keeps_working (instance_request (Suc n) c)"
      using axios_instance_request_keeps[OF r l i] by simp
  qed
  have b: "keeps_working (authService_refreshToken (Suc n))"
  proof -
    have "authService_refreshToken (Suc n) = refreshToken_with (HttpClient_post (instance_request n))"
      by (rule ext) simp
    then show ?thesis using refreshToken_with_keeps[OF p] by simp
  qed
  have c: "keeps_working (authService_logout (Suc n))"
  proof -
    have "authService_logout (Suc n) = logout_with (HttpClient_post (instance_request n))"
      by (rule ext) simp
    then show ?thesis using logout_with_keeps[OF p] by simp
  qed
  from a b c show ?case by blast
qed

section \<open>\<^verbatim>\<open>refreshToken\<close>\<close>






section \<open>\<^verbatim>\<open>checkAuth\<close>\<close>

lemma isTokenExpired_resolves: "\<exists>b. fst (isTokenExpired w) = Inr b"
  by (auto simp: storage_defs auth_storage_defs io_defs backend_defs
        split: list.splits option.splits prod.splits sum.splits)

lemma checkAuth_with_eq:
  "checkAuth_with refresh w =
     (if \<not> token_present w then Some (Inr False, at_expiry_check w)
      else if \<not> token_expired w then Some (Inr True, at_refresh w)
      else (case refresh (at_refresh w) of
              None \<Rightarrow> None
            | Some (Inr u, w') \<Rightarrow> Some (Inr True, w')
            | Some (Inl e, w') \<Rightarrow> Some (Inr False, w')))"
proof -
  obtain r w1 where g: "getAccessToken w = (r, w1)" by (cases "getAccessToken w")
  obtain tok where r: "r = Inr tok" using reads_resolve(5)[of w] g by auto
  obtain x w2 where i: "isTokenExpired w1 = (x, w2)" by (cases "isTokenExpired w1")
  obtain b where x: "x = Inr b" using isTokenExpired_resolves[of w1] i by auto
  show ?thesis
    using g r i x
    by (auto simp: checkAuth_with_def token_present_def token_expired_def at_refresh_def
          at_expiry_check_def io_defs split: option.splits sum.splits prod.splits)
qed

text \<open>
  With a working storage, what \<^verbatim>\<open>checkAuth\<close> sees is what is stored: the access token,
  and the expiry against the clock.
\<close>

lemma checkAuth_sees_store:
  assumes "sfaults w = []"
  shows "token_present w = truthy_str (secure w AUTH_TOKEN)"
    and "token_expired w =
           (case cache w TOKEN_EXPIRE_TIME of
              None \<Rightarrow> False
            | Some s \<Rightarrow> (case parseInt s of None \<Rightarrow> False | Some e \<Rightarrow> now w \<ge> e - bufferTime))"
    and "at_refresh w = w"
  using assms
  by (auto simp: token_present_def token_expired_def at_refresh_def at_expiry_check_def
        getAccessToken_working isTokenExpired_def working_storage io_defs Date_now_def
        parseInt_def split: option.splits)

text \<open>
  \<^verbatim>\<open>checkAuth()\<close> never throws. It returns true exactly when a token is stored and either
  it is not expired or the refresh succeeded, and it returns exactly when the refresh
  it attempts returns: false when that refresh has failed.
\<close>

lemma checkAuth_when_refresh_returns:
  "(authService_checkAuth n w = None \<or> (\<exists>b w'. authService_checkAuth n w = Some (Inr b, w'))) \<and>
   ((\<exists>w'. authService_checkAuth n w = Some (Inr True, w')) \<longleftrightarrow>
      token_present w \<and>
      (\<not> token_expired w \<or> succeeds (authService_refreshToken n) (at_refresh w))) \<and>
   (returns (authService_checkAuth n) w \<longleftrightarrow>
      (token_present w \<and> token_expired w
         \<longrightarrow> returns (authService_refreshToken n) (at_refresh w)))"
  by (auto simp: authService_checkAuth_def checkAuth_with_eq returns_def succeeds_def
        split: option.splits sum.splits prod.splits)

section \<open>\<^verbatim>\<open>logout\<close>\<close>

lemma logout_with_eq:
  "logout_with post w =
     (case post API_auth_logout None (snd (logger INFO ''Attempting logout'' ''AuthService'' w)) of
        None \<Rightarrow> None
      | Some (r1, w1) \<Rightarrow>
          (case clearAll (before_clear r1 w1) of
             (Inr u, w2) \<Rightarrow> Some (Inr (), snd (logger INFO ''Logout successful'' ''AuthService'' w2))
           | (Inl e, w2) \<Rightarrow>
               Some (Inl e, snd (trackApiError ''logout failed''
                                  (snd (logger ERROR ''Logout failed'' ''AuthService'' w2))))))"
  by (auto simp: logout_with_def before_clear_def io_defs
        split: option.splits sum.splits prod.splits)

text \<open>
  With a working storage, once the POST to the logout endpoint has returned, with a
  response or with a failure, \<^verbatim>\<open>logout()\<close> resolves and none of the four entries is left;
  a failure of the POST is logged as a warning. When the POST does not return, neither
  does \<^verbatim>\<open>logout()\<close>.
\<close>

lemma logout_when_post_returns:
  assumes "sfaults w = []"
  shows "(http_post n API_auth_logout None
            (snd (logger INFO ''Attempting logout'' ''AuthService'' w)) = None
          \<longrightarrow> authService_logout (Suc n) w = None) \<and>
         (\<forall>r1 w1. http_post n API_auth_logout None
                     (snd (logger INFO ''Attempting logout'' ''AuthService'' w)) = Some (r1, w1)
            \<longrightarrow> (\<exists>w'. authService_logout (Suc n) w = Some (Inr (), w') \<and> cleared w' \<and>
                       (isl r1 \<longrightarrow>
                          \<lparr>level = WARN,
                           text_of = ''Logout API call failed, continuing with local cleanup'',
                           module_of = ''AuthService''\<rparr> \<in> set (logs w'))))"
proof (intro conjI allI impI)
  assume "http_post n API_auth_logout None
            (snd (logger INFO ''Attempting logout'' ''AuthService'' w)) = None"
  then show "authService_logout (Suc n) w = None"
    by (simp add: logout_with_eq http_post_def)
next
  fix r1 w1
  let ?w0 = "snd (logger INFO ''Attempting logout'' ''AuthService'' w)"
  assume p: "http_post n API_auth_logout None ?w0 = Some (r1, w1)"
  have s0: "sfaults ?w0 = []" using assms by (simp add: logger_def)
  have k: "keeps_working (HttpClient_post (instance_request n) API_auth_logout None)"
    using system_keeps_working[of n] by (intro HttpClient_post_keeps) simp
  have s1: "sfaults w1 = []"
    using keeps_workingD[OF k s0] p by (simp add: http_post_def)
  then have s2: "sfaults (before_clear r1 w1) = []"
    by (cases r1) (simp_all add: before_clear_def logger_def)
  have lg: "isl r1 \<longrightarrow>
         \<lparr>level = WARN, text_of = ''Logout API call failed, continuing with local cleanup'',
          module_of = ''AuthService''\<rparr> \<in> set (logs (before_clear r1 w1))"
    by (cases r1) (simp_all add: before_clear_def logger_def)
  show "\<exists>w'. authService_logout (Suc n) w = Some (Inr (), w') \<and> cleared w' \<and>
              (isl r1 \<longrightarrow>
                 \<lparr>level = WARN,
                  text_of = ''Logout API call failed, continuing with local cleanup'',
                  module_of = ''AuthService''\<rparr> \<in> set (logs w'))"
    using p lg
    by (simp add: logout_with_eq http_post_def clearAll_working[OF s2] logger_def cleared_def
          credentials_def keys_distinct)
qed

section \<open>The startup sequence\<close>

lemma restore_resolves: "\<exists>t u. fst (restore J w) = Inr (t, u)"
  by (auto simp: restore_def all_storage_defs isl_def
        split: list.splits option.splits prod.splits sum.splits)

lemma restore_frame:
  "server (snd (restore J w)) = server w"
  "dispatched (snd (restore J w)) = dispatched w"
  "session (snd (restore J w)) = (session w)\<lparr>status := LOADING\<rparr>"
  "credentials (snd (restore J w)) = credentials w"
  by (auto simp: restore_def at_restore_def setStatus_def credentials_def all_storage_defs isl_def
        split: list.splits option.splits prod.splits sum.splits)

lemma restore_working:
  assumes "sfaults w = []"
  shows "saved_token J w = secure w AUTH_TOKEN"
    and "sfaults (at_checkAuth J w) = []"
  using assms
  by (auto simp: saved_token_def at_checkAuth_def restore_def at_restore_def setStatus_def
        all_storage_defs isl_def split: option.splits)

lemma initAuth_with_eq:
  "initAuth_with J check w =
     (if truthy_str (saved_token J w) \<and> truthy (saved_user J w) then
        (case check (at_checkAuth J w) of
           None \<Rightarrow> None
         | Some (Inr b, w2) \<Rightarrow>
             if b then Some (Inr (), restored (saved_user J w) (saved_token J w) w2)
             else (case clearAll w2 of
                     (Inr u, w3) \<Rightarrow>
                       Some (Inr (), signed_out ''Stored token invalid, cleared'' INFO w3)
                   | (Inl e, w3) \<Rightarrow> Some (Inr (), init_failed w3))
         | Some (Inl e, w2) \<Rightarrow> Some (Inr (), init_failed w2))
      else Some (Inr (), signed_out ''No stored auth data found'' DEBUG (at_checkAuth J w)))"
proof -
  obtain r w2 where g: "restore J w = (r, w2)" by (cases "restore J w")
  obtain tok usr where r: "r = Inr (tok, usr)" using restore_resolves[of J w] g by auto
  have a: "Promise_all2 (SecureStore_getItemAsync AUTH_TOKEN) getAccessToken_from (getUser J)
             (at_restore w) = (Inr (tok, usr), w2)"
    using g r by (simp add: restore_def)
  have st: "saved_token J w = tok" "saved_user J w = usr" "at_checkAuth J w = w2"
    using g r by (simp_all add: saved_token_def saved_user_def at_checkAuth_def)
  show ?thesis
  proof (cases "truthy_str tok \<and> truthy usr")
    case False
    then have c: "(truthy_str tok \<and> truthy usr) = False" by simp
    show ?thesis
      unfolding initAuth_with_def st using a
      by (simp add: c monad_defs at_restore_def signed_out_def setStatus_def logger_def)
  next
    case True
    show ?thesis
    proof (cases "check w2")
      case None
      with True show ?thesis
        unfolding initAuth_with_def st using a
        by (simp add: monad_defs at_restore_def setStatus_def logger_def)
    next
      case (Some p)
      obtain rc w3 where p: "p = (rc, w3)" by (cases p)
      show ?thesis
      proof (cases rc)
        case (Inl e)
        with True Some p show ?thesis
          unfolding initAuth_with_def st using a
          by (simp add: monad_defs at_restore_def init_failed_def setStatus_def logger_def)
      next
        case (Inr b)
        show ?thesis
        proof (cases b)
          case True2: True
          with True Some p Inr show ?thesis
            unfolding initAuth_with_def st using a
            by (simp add: monad_defs at_restore_def restored_def setStatus_def setUser_def
                  setToken_def logger_def)
        next
          case False
          obtain rx w4 where c: "clearAll w3 = (rx, w4)" by (cases "clearAll w3")
          with True Some p Inr False show ?thesis
            unfolding initAuth_with_def st using a
            by (cases rx)
               (simp_all add: monad_defs at_restore_def init_failed_def signed_out_def
                  setStatus_def logger_def)
        qed
      qed
    qed
  qed
qed

lemma at_checkAuth_frame:
  "dispatched (at_checkAuth J w) = dispatched w"
  "credentials (at_checkAuth J w) = credentials w"
  "session (at_checkAuth J w) = (session w)\<lparr>status := LOADING\<rparr>"
  "server (at_checkAuth J w) = server w"
  by (simp_all add: at_checkAuth_def restore_frame)

lemma final_worlds:
  "session (restored u t w2) = \<lparr>status = AUTHENTICATED, user = u, token = t\<rparr>"
  "status (session (signed_out m l w2)) = UNAUTHENTICATED"
  "status (session (init_failed w2)) = UNAUTHENTICATED"
  "credentials (signed_out m l w2) = credentials w2"
  "credentials (init_failed w2) = credentials w2"
  "dispatched (signed_out m l w2) = dispatched w2"
  "session (signed_out m l w2) = (session w2)\<lparr>status := UNAUTHENTICATED\<rparr>"
  "cleared (signed_out m l w2) = cleared w2"
  "cleared (init_failed w2) = cleared w2"
  by (cases "session w2";
      simp add: restored_def signed_out_def init_failed_def setStatus_def setUser_def setToken_def
        logger_def credentials_def cleared_def)+

text \<open>
  Whenever the startup sequence returns, it returns without throwing and with status
  Authenticated or Unauthenticated, and it returns whenever the \<^verbatim>\<open>checkAuth()\<close> it may
  call returns. With the token or the user absent it sets Unauthenticated directly (no
  request, the store untouched). With both present it calls \<^verbatim>\<open>checkAuth()\<close>: on true the
  session is Authenticated with the stored user and token; on false \<^verbatim>\<open>clearAll()\<close> is
  run and the status is Unauthenticated; and when \<^verbatim>\<open>checkAuth()\<close> does not return,
  neither does the sequence.
\<close>

lemma initAuth_when_checkAuth_returns:
  "(\<forall>r w'. initAuth J n w = Some (r, w') \<longrightarrow>
      r = Inr () \<and>
      (status (session w') = AUTHENTICATED \<or> status (session w') = UNAUTHENTICATED)) \<and>
   ((truthy_str (saved_token J w) \<and> truthy (saved_user J w)
       \<longrightarrow> returns (authService_checkAuth n) (at_checkAuth J w))
    \<longrightarrow> returns (initAuth J n) w) \<and>
   (\<not> (truthy_str (saved_token J w) \<and> truthy (saved_user J w)) \<longrightarrow>
      (\<exists>w'. initAuth J n w = Some (Inr (), w') \<and>
         session w' = (session w)\<lparr>status := UNAUTHENTICATED\<rparr> \<and>
         dispatched w' = dispatched w \<and> credentials w' = credentials w)) \<and>
   (truthy_str (saved_token J w) \<and> truthy (saved_user J w) \<longrightarrow>
      (\<forall>w2. authService_checkAuth n (at_checkAuth J w) = Some (Inr True, w2) \<longrightarrow>
         (\<exists>w'. initAuth J n w = Some (Inr (), w') \<and>
            session w' = \<lparr>status = AUTHENTICATED, user = saved_user J w,
                          token = saved_token J w\<rparr>)) \<and>
      (\<forall>w2. authService_checkAuth n (at_checkAuth J w) = Some (Inr False, w2) \<longrightarrow>
         (\<exists>w'. initAuth J n w = Some (Inr (), w') \<and>
            status (session w') = UNAUTHENTICATED \<and>
            credentials w' = credentials (snd (clearAll w2)) \<and>
            (fst (clearAll w2) = Inr () \<longrightarrow> cleared w'))) \<and>
      (authService_checkAuth n (at_checkAuth J w) = None \<longrightarrow> initAuth J n w = None))"
proof -
  have c: "\<And>w2 x2. clearAll w2 = (Inr (), x2) \<Longrightarrow> cleared x2"
    using clearAll_cleared by (metis fst_conv snd_conv)
  show ?thesis
    unfolding initAuth_def initAuth_with_eq returns_def
    by (auto simp: final_worlds at_checkAuth_frame dest: c
          split: option.splits sum.splits prod.splits)
qed

section \<open>When the refresh is refused with 401\<close>

lemma refused_forever_update [simp]:
  "refused_forever (w\<lparr>logs := l\<rparr>) = refused_forever w"
  "refused_forever (w\<lparr>now := t\<rparr>) = refused_forever w"
  "refused_forever (w\<lparr>dispatched := k\<rparr>) = refused_forever w"
  "refused_forever (w\<lparr>session := s\<rparr>) = refused_forever w"
  by (simp_all add: refused_forever_def)

lemma unauthorized_rejected:
  assumes "refresher (snd (logger INFO ''Token expired, attempting to refresh...''
                             ''NetworkInterceptor''
                             (snd (handleNetworkError
                                     (AxiosError ec msg
                                        (Some \<lparr>res_status = 401, res_data = b, res_config = cfg\<rparr>)
                                        cfg)
                                     w)))) = None"
  shows "response_rejected (Some refresher) lh self
           (AxiosError ec msg (Some \<lparr>res_status = 401, res_data = b, res_config = cfg\<rparr>) cfg) w
         = None"
  using assms
  by (simp add: response_rejected_def monad_defs Let_def logger_def)

text \<open>
  In a world in which every request is answered 401, the storage works and a refresh
  token is stored, a request never returns, and neither does \<^verbatim>\<open>refreshToken()\<close>: the
  request is answered 401, the interceptor calls \<^verbatim>\<open>refreshToken()\<close>, which posts the
  refresh token through the same instance, which is answered 401.
\<close>

lemma never_returns:
  "refused_forever w \<Longrightarrow>
     instance_request n config w = None \<and> authService_refreshToken n w = None"
proof (induction n arbitrary: w config)
  case 0
  then show ?case by simp
next
  case (Suc n)
  have s: "sfaults w = []" and sv: "\<And>i c. server w i c = status_only 401"
    and rt: "\<exists>rt. secure w REFRESH_TOKEN = Some rt \<and> rt \<noteq> []"
    using Suc.prems by (auto simp: refused_forever_def)
  have ih1: "\<And>w c. refused_forever w \<Longrightarrow> instance_request n c w = None"
    and ih2: "\<And>w. refused_forever w \<Longrightarrow> authService_refreshToken n w = None"
    using Suc.IH by auto
  have a: "authService_refreshToken (Suc n) w = None"
    using rt s Suc.prems
    by (auto simp: refreshToken_with_def HttpClient_post_def HttpClient_request_def monad_defs
          getRefreshToken_working logger_def ih1)
  have b: "instance_request (Suc n) config w = None"
    using s sv Suc.prems
    by (simp add: axios_instance_request_def request_interceptor_def dispatchRequest_def
          getAccessToken_working monad_defs Date_now_def Let_def logger_def status_only_def
          unauthorized_rejected ih2
          split: option.splits)
  from a b show ?case by simp
qed

lemma signed_in_refused:
  "refused_forever (signed_in_world\<lparr>server := status_server 401\<rparr>)"
  by (simp add: refused_forever_def signed_in_world_def initial_world_def status_server_def
        key_defs)

text \<open>
  C5. With a token stored and expired, \<^verbatim>\<open>checkAuth()\<close> returns true when the server
  refreshes the token, and false when the server answers the refresh with 500. When the
  server answers every request with 401, \<^verbatim>\<open>checkAuth()\<close> does not return false: it does
  not return, whatever the bound on the nesting, because the refresh that was answered
  401 starts another refresh.
\<close>

theorem checkAuth_unauthorized_refresh:
  "map_option fst (authService_checkAuth 3 (signed_in_world\<lparr>server := good_server\<rparr>))
     = Some (Inr True) \<and>
   map_option fst (authService_checkAuth 3 (signed_in_world\<lparr>server := status_server 500\<rparr>))
     = Some (Inr False) \<and>
   (\<forall>n. authService_checkAuth n (signed_in_world\<lparr>server := status_server 401\<rparr>) = None)"
proof (intro conjI allI)
  show "map_option fst (authService_checkAuth 3 (signed_in_world\<lparr>server := good_server\<rparr>))
          = Some (Inr True)"
    by code_simp
next
  show "map_option fst (authService_checkAuth 3 (signed_in_world\<lparr>server := status_server 500\<rparr>))
          = Some (Inr False)"
    by code_simp
next
  fix n
  let ?w = "signed_in_world\<lparr>server := status_server 401\<rparr>"
  have s: "sfaults ?w = []" by (simp add: signed_in_world_def initial_world_def)
  have tp: "token_present ?w \<and> token_expired ?w" by code_simp
  have "authService_refreshToken n (at_refresh ?w) = None"
    using never_returns[OF signed_in_refused] by (simp add: checkAuth_sees_store(3)[OF s])
  then show "authService_checkAuth n ?w = None"
    using tp by (simp add: authService_checkAuth_def checkAuth_with_eq)
qed

text \<open>
  C4. With the four entries stored: when the server accepts the logout, and when it
  answers the logout with 500, \<^verbatim>\<open>logout()\<close> resolves and none of the entries is left.
  When the server answers every request with 401, \<^verbatim>\<open>logout()\<close> does not return,
  whatever the bound on the nesting, and so never comes to clear the store: the POST
  that was answered 401 starts a refresh, which is answered 401.
\<close>

theorem logout_unauthorized_post:
  "result_and_store (authService_logout 2 (signed_in_world\<lparr>server := good_server\<rparr>))
     = Some (Inr (), None, None, None, None) \<and>
   result_and_store (authService_logout 2 (signed_in_world\<lparr>server := status_server 500\<rparr>))
     = Some (Inr (), None, None, None, None) \<and>
   (\<forall>n. authService_logout n (signed_in_world\<lparr>server := status_server 401\<rparr>) = None)"
proof (intro conjI allI)
  show "result_and_store (authService_logout 2 (signed_in_world\<lparr>server := good_server\<rparr>))
          = Some (Inr (), None, None, None, None)"
    by code_simp
next
  show "result_and_store (authService_logout 2 (signed_in_world\<lparr>server := status_server 500\<rparr>))
          = Some (Inr (), None, None, None, None)"
    by code_simp
next
  fix n
  let ?w = "signed_in_world\<lparr>server := status_server 401\<rparr>"
  show "authService_logout n ?w = None"
  proof (cases n)
    case 0
    then show ?thesis by simp
  next
    case (Suc k)
    have "refused_forever (snd (logger INFO ''Attempting logout'' ''AuthService'' ?w))"
      using signed_in_refused by (simp add: logger_def)
    then have "instance_request k c (snd (logger INFO ''Attempting logout'' ''AuthService'' ?w))
                 = None" for c
      using never_returns by blast
    then show ?thesis
      using Suc
      by (simp add: logout_with_eq HttpClient_post_def HttpClient_request_def monad_defs)
  qed
qed

text \<open>
  C7. With a token and a user stored and the token expired: when the server refreshes
  the token, the startup sequence ends with status Authenticated, the stored user and
  the token it read; when the server answers the refresh with 500, it ends with status
  Unauthenticated and the store cleared. When the server answers every request with 401,
  the sequence does not return, whatever the bound on the nesting: the status it has set
  to Loading is never set again.
\<close>

theorem initAuth_unauthorized_refresh:
  "map_option (\<lambda>(r, w'). (r, session w'))
     (initAuth json_codec 3 (signed_in_world\<lparr>server := good_server\<rparr>))
     = Some (Inr (), \<lparr>status = AUTHENTICATED, user = alice, token = Some ''A0''\<rparr>) \<and>
   map_option (\<lambda>(r, w'). (r, status (session w'), credentials w'))
     (initAuth json_codec 3 (signed_in_world\<lparr>server := status_server 500\<rparr>))
     = Some (Inr (), UNAUTHENTICATED, None, None, None, None) \<and>
   (\<forall>n. initAuth json_codec n (signed_in_world\<lparr>server := status_server 401\<rparr>) = None)"
proof (intro conjI allI)
  show "map_option (\<lambda>(r, w'). (r, session w'))
     (initAuth json_codec 3 (signed_in_world\<lparr>server := good_server\<rparr>))
     = Some (Inr (), \<lparr>status = AUTHENTICATED, user = alice, token = Some ''A0''\<rparr>)"
    by code_simp
next
  show "map_option (\<lambda>(r, w'). (r, status (session w'), credentials w'))
     (initAuth json_codec 3 (signed_in_world\<lparr>server := status_server 500\<rparr>))
     = Some (Inr (), UNAUTHENTICATED, None, None, None, None)"
    by code_simp
next
  fix n
  let ?w = "signed_in_world\<lparr>server := status_server 401\<rparr>"
  let ?c = "at_checkAuth json_codec ?w"
  have s: "sfaults ?w = []" by (simp add: signed_in_world_def initial_world_def)
  have sc: "sfaults ?c = []" by (rule restore_working(2)[OF s])
  have t: "truthy_str (saved_token json_codec ?w) \<and> truthy (saved_user json_codec ?w)"
    by code_simp
  have tp: "token_present ?c \<and> token_expired ?c" by code_simp
  have r: "secure ?c REFRESH_TOKEN = Some ''R0''" by code_simp
  have sv: "server ?c = status_server 401" by (simp add: at_checkAuth_frame)
  have "refused_forever ?c"
    using sc r sv by (simp add: refused_forever_def status_server_def)
  then have "authService_refreshToken n (at_refresh ?c) = None"
    using never_returns by (simp add: checkAuth_sees_store(3)[OF sc])
  then have "authService_checkAuth n ?c = None"
    using tp by (simp add: authService_checkAuth_def checkAuth_with_eq)
  then show "initAuth json_codec n ?w = None"
    using t by (simp add: initAuth_def initAuth_with_eq)
qed

section \<open>Login\<close>

lemma saveToken_working:
  assumes "sfaults w = []" and "rt \<noteq> []" and "secs \<noteq> 0"
  shows "saveToken \<lparr>accessToken = at, refreshToken = Some rt, expiresIn = Some secs,
                    tokenType = tt\<rparr> w
           = (Inr (), w\<lparr>secure := (secure w)(AUTH_TOKEN \<mapsto> at, REFRESH_TOKEN \<mapsto> rt),
                        cache := (cache w)(TOKEN_EXPIRE_TIME \<mapsto> toString (now w + secs * 1000)),
                        logs := logs w @ [\<lparr>level = DEBUG, text_of = ''Token saved successfully'',
                                          module_of = ''AuthStorage''\<rparr>]\<rparr>)"
  using assms
  by (simp add: saveToken_def Date_now_def working_storage io_defs Let_def)

lemma saveUser_working:
  assumes "sfaults w = []" and "u \<noteq> JNull"
  shows "saveUser J u w
           = (Inr (), w\<lparr>cache := (cache w)(USER_INFO \<mapsto> JSON_stringify J u),
                        logs := logs w @ [\<lparr>level = DEBUG,
                                          text_of = ''User info saved successfully'',
                                          module_of = ''AuthStorage''\<rparr>]\<rparr>)"
  using assms
  by (simp add: saveUser_def cache_setObject_def working_storage io_defs)

lemma post_succeeds:
  assumes "sfaults w = []"
      and "\<forall>cfg. server w (dispatched w) cfg = \<lparr>elapsed = d, outcome = Responded st b\<rparr>"
      and "200 \<le> st" and "st < 300"
  shows "\<exists>w'. HttpClient_post (instance_request (Suc n)) u bd w = Some (Inr (data b), w') \<and>
           secure w' = secure w \<and> cache w' = cache w \<and> sfaults w' = [] \<and>
           now w' = now w + int d \<and> session w' = session w \<and>
           dispatched w' = Suc (dispatched w)"
  using assms
  by (auto simp: network_defs io_defs Date_now_def Let_def getAccessToken_working
        split: option.splits)

text \<open>
  C6. In a world whose storage works, when the server answers the login request with a
  200 response carrying user \<open>alice\<close> and token \<open>A1\<close>/\<open>R1\<close>/3600: the login of the auth
  provider resolves; the secure partition holds \<open>A1\<close> and \<open>R1\<close>; the general partition
  holds the expiry \<open>now + 3600 * 1000\<close>, \<open>now\<close> read when the token is saved (after the
  exchange, which took \<open>d\<close> ms), and the serialised user; and the session is
  Authenticated with that user and the token \<open>A1\<close>.
\<close>

theorem login_scenario:
  assumes "sfaults w = []"
      and "\<forall>cfg. server w (dispatched w) cfg
             = \<lparr>elapsed = d,
                outcome = Responded 200 \<lparr>code = c, message = m,
                                          data = LoginResponseData alice token_A1\<rparr>\<rparr>"
  shows "\<exists>w'. provider_login J (Suc n) params w = Some (Inr (), w') \<and>
           credentials w' = (Some ''A1'', Some ''R1'',
                             Some (toString (now w + int d + 3600 * 1000)),
                             Some (JSON_stringify J alice)) \<and>
           session w' = \<lparr>status = AUTHENTICATED, user = alice, token = Some ''A1''\<rparr>"
proof -
  let ?w0 = "snd (logger INFO ''Attempting login'' ''AuthService''
                (snd (logger INFO ''Login initiated'' ''AuthContext''
                   (snd (setStatus LOADING w)))))"
  have s0: "sfaults ?w0 = []" using assms(1) by (simp add: logger_def setStatus_def)
  have sv: "\<forall>cfg. server ?w0 (dispatched ?w0) cfg
             = \<lparr>elapsed = d,
                outcome = Responded 200 \<lparr>code = c, message = m,
                                          data = LoginResponseData alice token_A1\<rparr>\<rparr>"
    using assms(2) by (simp add: logger_def setStatus_def)
  obtain w1 where p: "HttpClient_post (instance_request (Suc n)) API_auth_login
                        (Some (LoginParams_json params)) ?w0
                      = Some (Inr (LoginResponseData alice token_A1), w1)"
    and f: "sfaults w1 = []" "now w1 = now w + int d"
    using post_succeeds[OF s0 sv, of n API_auth_login "Some (LoginParams_json params)"]
    by (auto simp: logger_def setStatus_def)
  have st: "saveToken token_A1 w1
           = (Inr (), w1\<lparr>secure := (secure w1)(AUTH_TOKEN \<mapsto> ''A1'', REFRESH_TOKEN \<mapsto> ''R1''),
                        cache := (cache w1)(TOKEN_EXPIRE_TIME \<mapsto> toString (now w1 + 3600 * 1000)),
                        logs := logs w1 @ [\<lparr>level = DEBUG, text_of = ''Token saved successfully'',
                                          module_of = ''AuthStorage''\<rparr>]\<rparr>)"
    unfolding token_A1_def using saveToken_working[OF f(1), of "''R1''" 3600 "''A1''" None]
    by simp
  show ?thesis
    using p f st
    by (simp add: provider_login_def provider_login_with_def authService_login_def login_with_def
          http_post_def io_defs saveUser_working getAccessToken_working alice_def
          credentials_def keys_distinct setStatus_def setUser_def setToken_def)
qed

text \<open>
  The theorem at a fresh installation whose server answers the login: the expiry stored
  is \<open>1700000000000 + 20 + 3600000\<close>.
\<close>

theorem login_scenario_witness:
  "sfaults (initial_world\<lparr>server := login_server\<rparr>) = [] \<and>
   (\<forall>cfg. server (initial_world\<lparr>server := login_server\<rparr>)
            (dispatched (initial_world\<lparr>server := login_server\<rparr>)) cfg
          = \<lparr>elapsed = 20,
             outcome = Responded 200 \<lparr>code = Some 0, message = Some ''ok'',
                                       data = LoginResponseData alice token_A1\<rparr>\<rparr>) \<and>
   (\<exists>w'. provider_login json_codec (Suc 0) alice_params
            (initial_world\<lparr>server := login_server\<rparr>) = Some (Inr (), w') \<and>
          credentials w'
            = (Some ''A1'', Some ''R1'', Some ''1700003600020'', Some (stringify alice)) \<and>
          session w' = \<lparr>status = AUTHENTICATED, user = alice, token = Some ''A1''\<rparr>)"
proof -
  let ?w = "initial_world\<lparr>server := login_server\<rparr>"
  have h1: "sfaults ?w = []" by (simp add: initial_world_def)
  have h2: "\<forall>cfg. server ?w (dispatched ?w) cfg
          = \<lparr>elapsed = 20,
             outcome = Responded 200 \<lparr>code = Some 0, message = Some ''ok'',
                                       data = LoginResponseData alice token_A1\<rparr>\<rparr>"
    by (simp add: login_server_def answer_def)
  have t: "toString (now ?w + int 20 + 3600 * 1000) = ''1700003600020''" by code_simp
  from login_scenario[OF h1 h2, of json_codec 0 alice_params] h1 h2 t
  show ?thesis by (simp add: json_codec_def)
qed

section \<open>The response interceptor on 401\<close>







section \<open>Objects in the cache storage\<close>

text \<open>
  C9. For a value \<open>v\<close> that the platform's JSON reads back as it wrote it (and a platform
  that reads no value from the empty text): when \<^verbatim>\<open>setObject(k, v)\<close> has resolved and
  the read that follows does not fail, \<^verbatim>\<open>getObject(k)\<close> resolves with \<open>v\<close>.
\<close>

theorem setObject_getObject_roundtrip:
  assumes "JSON_parse J (JSON_stringify J v) = Some v" and "JSON_parse J [] = None"
      and "fst (cache_setObject J k v w) = Inr ()"
      and "next_call_succeeds (snd (cache_setObject J k v w))"
  shows "fst (cache_getObject J k (snd (cache_setObject J k v w))) = Inr v"
proof -
  have ne: "JSON_stringify J v \<noteq> []" using assms(1,2) by auto
  show ?thesis
    using assms ne
    by (auto simp: next_call_succeeds_def storage_defs io_defs backend_defs
          split: list.splits option.splits prod.splits sum.splits if_splits)
qed

text \<open>The theorem at the user of the login scenario, in a fresh installation.\<close>

theorem setObject_getObject_roundtrip_witness:
  "JSON_parse json_codec (JSON_stringify json_codec alice) = Some alice \<and>
   JSON_parse json_codec [] = None \<and>
   fst (cache_setObject json_codec USER_INFO alice initial_world) = Inr () \<and>
   next_call_succeeds (snd (cache_setObject json_codec USER_INFO alice initial_world)) \<and>
   fst (cache_getObject json_codec USER_INFO
          (snd (cache_setObject json_codec USER_INFO alice initial_world))) = Inr alice"
proof -
  have h1: "JSON_parse json_codec (JSON_stringify json_codec alice) = Some alice" by code_simp
  have h2: "JSON_parse json_codec [] = None" by code_simp
  have h3: "fst (cache_setObject json_codec USER_INFO alice initial_world) = Inr ()"
    by code_simp
  have h4: "next_call_succeeds (snd (cache_setObject json_codec USER_INFO alice initial_world))"
    by code_simp
  from setObject_getObject_roundtrip[OF h1 h2 h3 h4] h1 h2 h3 h4 show ?thesis by simp
qed

end
